theory Spec2Isabelle
  imports Main "HOL-Library.Char_ord" "HOL-Library.List_Lexorder"
begin

section \<open>Data model (apps/tasks/models.py)\<close>

text \<open>
  Primary keys are UUIDs and owners are rows of the user table; both are opaque
  identifiers here. A \<open>datetime.date\<close> is its day number, so \<open><\<close> on dates is
  \<open><\<close> on integers. \<open>date.today()\<close> is an explicit argument \<open>today\<close> of
  every function that reads the clock.
\<close>

type_synonym uuid = nat
type_synonym user_id = nat
type_synonym date = int

datatype status = TODO | IN_PROGRESS | DONE

datatype priority = LOW | MEDIUM | HIGH | URGENT

fun status_value :: "status \<Rightarrow> string" where
  "status_value TODO = ''todo''"
| "status_value IN_PROGRESS = ''in_progress''"
| "status_value DONE = ''done''"

fun priority_value :: "priority \<Rightarrow> string" where
  "priority_value LOW = ''low''"
| "priority_value MEDIUM = ''medium''"
| "priority_value HIGH = ''high''"
| "priority_value URGENT = ''urgent''"

text \<open>Iterating over the enumeration classes yields their members in declaration order.\<close>

definition Status :: "status list" where
  "Status = [TODO, IN_PROGRESS, DONE]"

definition Priority :: "priority list" where
  "Priority = [LOW, MEDIUM, HIGH, URGENT]"

text \<open>
  Both models have a primary key \<open>id\<close> (\<open>pk\<close>) and a foreign key \<open>user\<close> to the
  owner. The timestamps \<open>created_at\<close> and \<open>updated_at\<close> are not modelled.
\<close>

record model =
  pk :: uuid
  user :: user_id

record category = model +
  name :: string
  colour :: string

record task = model +
  title :: string
  description :: string
  status :: status
  priority :: priority
  due_date :: "date option"
  category_id :: "uuid option"

definition is_overdue :: "date \<Rightarrow> task \<Rightarrow> bool" where
  "is_overdue today self =
     (case due_date self of
        Some d \<Rightarrow> if status self \<noteq> DONE then d < today else False
      | None \<Rightarrow> False)"

record database =
  categories :: "category list"
  tasks :: "task list"

section \<open>Strings\<close>

fun join :: "string \<Rightarrow> string list \<Rightarrow> string" where
  "join sep [] = []"
| "join sep [x] = x"
| "join sep (x # y # ys) = x @ sep @ join sep (y # ys)"

text \<open>
  \<open>str.isspace\<close> on the code points below 256: tab, line feed, vertical tab, form feed,
  carriage return, the four separators 28..31, space, NEL (133) and no-break space (160).
\<close>

definition isspace :: "char \<Rightarrow> bool" where
  "isspace c = ((of_char c :: nat) \<in> {9, 10, 11, 12, 13, 28, 29, 30, 31, 32, 133, 160})"

definition strip :: "string \<Rightarrow> string" where
  "strip s = rev (dropWhile isspace (rev (dropWhile isspace s)))"

text \<open>\<open>s.split(sep)\<close> for a one-character separator: never empty, \<open>''''\<close> gives \<open>['''']\<close>.\<close>

fun split :: "char \<Rightarrow> string \<Rightarrow> string list" where
  "split sep [] = [[]]"
| "split sep (c # cs) =
     (if c = sep then [] # split sep cs
      else (case split sep cs of
              w # ws \<Rightarrow> (c # w) # ws
            | [] \<Rightarrow> [[c]]))"

section \<open>Task serializer (apps/tasks/serializers.py)\<close>

text \<open>
  Validation errors are the serializer's \<open>errors\<close> dictionary: field name and error
  detail, in field order. The framework's own details are kept by their code; a
  \<open>ValidationError\<close> raised by the serializers of this repository has the code
  \<open>invalid\<close> and carries its message.
\<close>

datatype detail =
  Required
| Blank
| Max_length nat
| Invalid_choice string
| Does_not_exist uuid
| Invalid string

type_synonym errors = "(string \<times> detail) list"

text \<open>
  The request body. \<open>None\<close> is an absent key. For the nullable fields \<open>due_date\<close> and
  \<open>category\<close>, \<open>Some None\<close> is an explicit null. Status and priority arrive as
  text; dates and keys arrive parsed.
\<close>

record task_data =
  d_title :: "string option"
  d_description :: "string option"
  d_status :: "string option"
  d_priority :: "string option"
  d_due_date :: "date option option"
  d_category :: "uuid option option"

text \<open>
  The validated dictionary \<open>attrs\<close>: \<open>"status" in attrs\<close> is \<open>a_status attrs \<noteq> None\<close>.
  The category is the related object the primary-key field has looked up.
\<close>

record task_attrs =
  a_title :: "string option"
  a_description :: "string option"
  a_status :: "status option"
  a_priority :: "priority option"
  a_due_date :: "date option option"
  a_category :: "category option option"

definition validate_due_date :: "date \<Rightarrow> task option \<Rightarrow> date option \<Rightarrow> detail + date option" where
  "validate_due_date today instance value =
     (case value of
        Some d \<Rightarrow>
          if instance = None then
            (if d < today then Inl (Invalid ''Due date cannot be in the past.'') else Inr value)
          else Inr value
      | None \<Rightarrow> Inr value)"

definition validate_category :: "user_id option \<Rightarrow> category option \<Rightarrow> detail + category option" where
  "validate_category request value =
     (case value of
        None \<Rightarrow> Inr value
      | Some c \<Rightarrow>
          (case request of
             Some request_user \<Rightarrow>
               if user c \<noteq> request_user then Inl (Invalid ''You can only assign your own categories.'')
               else Inr value
           | None \<Rightarrow> Inr value))"

fun VALID_TRANSITIONS :: "status \<Rightarrow> status list" where
  "VALID_TRANSITIONS TODO = [TODO, IN_PROGRESS]"
| "VALID_TRANSITIONS IN_PROGRESS = [IN_PROGRESS, DONE, TODO]"
| "VALID_TRANSITIONS DONE = [DONE, TODO]"

definition transition_message :: "status \<Rightarrow> status \<Rightarrow> string" where
  "transition_message current requested =
     ''Invalid transition from '' @ [CHR 0x27] @ status_value current @ [CHR 0x27] @ '' to ''
       @ [CHR 0x27] @ status_value requested @ [CHR 0x27] @ ''. Allowed: ''
       @ join '', '' (sort (map status_value (VALID_TRANSITIONS current))) @ ''.''"

definition validate :: "task option \<Rightarrow> task_attrs \<Rightarrow> errors + task_attrs" where
  "validate instance attrs =
     (case instance of
        Some inst \<Rightarrow>
          (case a_status attrs of
             Some requested \<Rightarrow>
               if requested \<notin> set (VALID_TRANSITIONS (status inst))
               then Inl [(''status'', Invalid (transition_message (status inst) requested))]
               else Inr attrs
           | None \<Rightarrow> Inr attrs)
      | None \<Rightarrow> Inr attrs)"

text \<open>
  The fields the model serializer derives from the model declaration. A character field
  trims surrounding whitespace, refuses a blank value unless the column allows it, and
  checks the column's maximum length. A choice field maps the text to the enumeration
  member. A primary-key related field loads the referenced row.
\<close>

definition char_field :: "nat option \<Rightarrow> bool \<Rightarrow> string \<Rightarrow> detail + string" where
  "char_field max_length allow_blank data =
     (if strip data = [] then (if allow_blank then Inr [] else Inl Blank)
      else (case max_length of
              Some n \<Rightarrow> if n < length (strip data) then Inl (Max_length n) else Inr (strip data)
            | None \<Rightarrow> Inr (strip data)))"

definition choice_field :: "('a \<Rightarrow> string) \<Rightarrow> 'a list \<Rightarrow> string \<Rightarrow> detail + 'a" where
  "choice_field val choices data =
     (case find (\<lambda>c. val c = data) choices of
        Some c \<Rightarrow> Inr c
      | None \<Rightarrow> Inl (Invalid_choice data))"

definition primary_key_related_field :: "category list \<Rightarrow> uuid \<Rightarrow> detail + category" where
  "primary_key_related_field queryset data =
     (case find (\<lambda>c. pk c = data) queryset of
        Some c \<Rightarrow> Inr c
      | None \<Rightarrow> Inl (Does_not_exist data))"

text \<open>A key absent from the body is an error only for a required field.\<close>

definition run_field :: "bool \<Rightarrow> 'a option \<Rightarrow> ('a \<Rightarrow> detail + 'b) \<Rightarrow> detail + 'b option" where
  "run_field required data f =
     (case data of
        None \<Rightarrow> if required then Inl Required else Inr None
      | Some x \<Rightarrow> (case f x of Inl e \<Rightarrow> Inl e | Inr v \<Rightarrow> Inr (Some v)))"

definition field_error :: "string \<Rightarrow> detail + 'a \<Rightarrow> errors" where
  "field_error field_name r = (case r of Inl e \<Rightarrow> [(field_name, e)] | Inr _ \<Rightarrow> [])"

definition category_field :: "user_id option \<Rightarrow> category list \<Rightarrow> uuid option \<Rightarrow> detail + category option" where
  "category_field request queryset data =
     (case data of
        None \<Rightarrow> validate_category request None
      | Some k \<Rightarrow>
          (case primary_key_related_field queryset k of
             Inl e \<Rightarrow> Inl e
           | Inr c \<Rightarrow> validate_category request (Some c)))"

text \<open>
  Field-level validation: every field of the body is validated, with its
  \<open>validate_<field>\<close> method after the field's own checks, and the errors of all
  fields are collected. \<open>partial\<close> is true for PATCH. Only \<open>title\<close> is required
  (the other columns have defaults or are nullable).
\<close>

definition TaskSerializer_to_internal_value ::
    "date \<Rightarrow> user_id option \<Rightarrow> category list \<Rightarrow> task option \<Rightarrow> bool \<Rightarrow> task_data \<Rightarrow> errors + task_attrs" where
  "TaskSerializer_to_internal_value today request all_categories instance partial data =
     (let title_r = run_field (\<not> partial) (d_title data) (char_field (Some 200) False);
          description_r = run_field False (d_description data) (char_field None True);
          status_r = run_field False (d_status data) (choice_field status_value Status);
          priority_r = run_field False (d_priority data) (choice_field priority_value Priority);
          due_date_r = run_field False (d_due_date data) (validate_due_date today instance);
          category_r = run_field False (d_category data) (category_field request all_categories)
      in (case (title_r, description_r, status_r, priority_r, due_date_r, category_r) of
            (Inr t, Inr d, Inr s, Inr p, Inr dd, Inr c) \<Rightarrow>
              Inr \<lparr>a_title = t, a_description = d, a_status = s, a_priority = p,
                   a_due_date = dd, a_category = c\<rparr>
          | _ \<Rightarrow>
              Inl (field_error ''title'' title_r @ field_error ''description'' description_r
                   @ field_error ''status'' status_r @ field_error ''priority'' priority_r
                   @ field_error ''due_date'' due_date_r @ field_error ''category'' category_r)))"

text \<open>Field-level validation first; object-level \<open>validate\<close> only when no field failed.\<close>

definition TaskSerializer_run_validation ::
    "date \<Rightarrow> user_id option \<Rightarrow> category list \<Rightarrow> task option \<Rightarrow> bool \<Rightarrow> task_data \<Rightarrow> errors + task_attrs" where
  "TaskSerializer_run_validation today request all_categories instance partial data =
     (case TaskSerializer_to_internal_value today request all_categories instance partial data of
        Inl e \<Rightarrow> Inl e
      | Inr attrs \<Rightarrow> validate instance attrs)"

text \<open>
  \<open>serializer.save(user=request.user)\<close> without an instance: the row is built from the
  validated attributes, the owner and the column defaults. The fresh primary key
  (\<open>uuid.uuid4\<close>) is an argument.
\<close>

definition create_task :: "uuid \<Rightarrow> user_id \<Rightarrow> task_attrs \<Rightarrow> task" where
  "create_task new_pk request_user attrs =
     \<lparr>pk = new_pk, user = request_user,
      title = (case a_title attrs of Some t \<Rightarrow> t | None \<Rightarrow> []),
      description = (case a_description attrs of Some d \<Rightarrow> d | None \<Rightarrow> []),
      status = (case a_status attrs of Some s \<Rightarrow> s | None \<Rightarrow> TODO),
      priority = (case a_priority attrs of Some p \<Rightarrow> p | None \<Rightarrow> MEDIUM),
      due_date = (case a_due_date attrs of Some d \<Rightarrow> d | None \<Rightarrow> None),
      category_id = (case a_category attrs of Some c \<Rightarrow> map_option pk c | None \<Rightarrow> None)\<rparr>"

text \<open>With an instance: every validated attribute is set on it, the others stay.\<close>

definition update_task :: "task \<Rightarrow> task_attrs \<Rightarrow> task" where
  "update_task instance attrs =
     instance\<lparr>
       title := (case a_title attrs of Some t \<Rightarrow> t | None \<Rightarrow> title instance),
       description := (case a_description attrs of Some d \<Rightarrow> d | None \<Rightarrow> description instance),
       status := (case a_status attrs of Some s \<Rightarrow> s | None \<Rightarrow> status instance),
       priority := (case a_priority attrs of Some p \<Rightarrow> p | None \<Rightarrow> priority instance),
       due_date := (case a_due_date attrs of Some d \<Rightarrow> d | None \<Rightarrow> due_date instance),
       category_id := (case a_category attrs of Some c \<Rightarrow> map_option pk c | None \<Rightarrow> category_id instance)\<rparr>"

section \<open>Category serializer (apps/tasks/serializers.py)\<close>

record category_data =
  d_name :: "string option"
  d_colour :: "string option"

record category_attrs =
  a_name :: "string option"
  a_colour :: "string option"

definition hexdigit :: "char \<Rightarrow> bool" where
  "hexdigit c =
     (let n = (of_char c :: nat)
      in (48 \<le> n \<and> n \<le> 57) \<or> (65 \<le> n \<and> n \<le> 70) \<or> (97 \<le> n \<and> n \<le> 102))"

text \<open>
  \<open>re.match(r"^#[0-9A-Fa-f]{6}$", value)\<close>: a hash sign and six hexadecimal digits;
  \<open>$\<close> also matches before one final line feed.
\<close>

definition colour_re :: "string \<Rightarrow> bool" where
  "colour_re v =
     (case v of
        [] \<Rightarrow> False
      | c # cs \<Rightarrow>
          c = CHR ''#'' \<and> length (take 6 cs) = 6 \<and> list_all hexdigit (take 6 cs)
          \<and> (drop 6 cs = [] \<or> drop 6 cs = [CHR 0x0A]))"

definition validate_colour :: "string \<Rightarrow> detail + string" where
  "validate_colour v =
     (if \<not> colour_re v then Inl (Invalid ''Colour must be a valid hex code, e.g. #6366f1.'')
      else Inr v)"

text \<open>
  The lookup \<open>name__iexact\<close> compares the upper-cased texts (the database's
  \<open>UPPER\<close>); the case mapping is the one of the ASCII letters.
\<close>

definition upper_char :: "char \<Rightarrow> char" where
  "upper_char c =
     (let n = (of_char c :: nat)
      in if 97 \<le> n \<and> n \<le> 122 then char_of (n - 32) else c)"

definition iexact :: "string \<Rightarrow> string \<Rightarrow> bool" where
  "iexact a b = (map upper_char a = map upper_char b)"

definition validate_name :: "user_id option \<Rightarrow> category list \<Rightarrow> category option \<Rightarrow> string \<Rightarrow> detail + string" where
  "validate_name request all_categories instance v =
     (case request of
        None \<Rightarrow> Inr v
      | Some request_user \<Rightarrow>
          (let qs = filter (\<lambda>c. iexact (name c) v \<and> user c = request_user) all_categories;
               qs' = (case instance of
                        Some inst \<Rightarrow> filter (\<lambda>c. pk c \<noteq> pk inst) qs
                      | None \<Rightarrow> qs)
           in if qs' \<noteq> [] then Inl (Invalid ''You already have a category with this name.'')
              else Inr v))"

definition name_field :: "user_id option \<Rightarrow> category list \<Rightarrow> category option \<Rightarrow> string \<Rightarrow> detail + string" where
  "name_field request all_categories instance data =
     (case char_field (Some 100) False data of
        Inl e \<Rightarrow> Inl e
      | Inr v \<Rightarrow> validate_name request all_categories instance v)"

definition colour_field :: "string \<Rightarrow> detail + string" where
  "colour_field data =
     (case char_field (Some 7) False data of
        Inl e \<Rightarrow> Inl e
      | Inr v \<Rightarrow> validate_colour v)"

definition CategorySerializer_run_validation ::
    "user_id option \<Rightarrow> category list \<Rightarrow> category option \<Rightarrow> bool \<Rightarrow> category_data \<Rightarrow> errors + category_attrs" where
  "CategorySerializer_run_validation request all_categories instance partial data =
     (let name_r = run_field (\<not> partial) (d_name data) (name_field request all_categories instance);
          colour_r = run_field False (d_colour data) colour_field
      in (case (name_r, colour_r) of
            (Inr n, Inr c) \<Rightarrow> Inr \<lparr>a_name = n, a_colour = c\<rparr>
          | _ \<Rightarrow> Inl (field_error ''name'' name_r @ field_error ''colour'' colour_r)))"

definition create_category :: "uuid \<Rightarrow> user_id \<Rightarrow> category_attrs \<Rightarrow> category" where
  "create_category new_pk request_user attrs =
     \<lparr>pk = new_pk, user = request_user,
      name = (case a_name attrs of Some n \<Rightarrow> n | None \<Rightarrow> []),
      colour = (case a_colour attrs of Some c \<Rightarrow> c | None \<Rightarrow> ''#6366f1'')\<rparr>"

definition update_category :: "category \<Rightarrow> category_attrs \<Rightarrow> category" where
  "update_category instance attrs =
     instance\<lparr>
       name := (case a_name attrs of Some n \<Rightarrow> n | None \<Rightarrow> name instance),
       colour := (case a_colour attrs of Some c \<Rightarrow> c | None \<Rightarrow> colour instance)\<rparr>"

section \<open>Query sets and task filters (apps/tasks/filters.py)\<close>

text \<open>
  A queryset is the list of its rows. A \<open>Q\<close> object is a condition on a task row;
  \<open>filter\<close> keeps the rows that match and \<open>exclude\<close> keeps the rows that do not.
  A comparison with a null column does not match; under \<open>exclude\<close> the query
  builder guards the nullable column with \<open>IS NOT NULL\<close> inside the negation, so a row
  with a null \<open>due_date\<close> is kept there.
\<close>

datatype q =
  Due_date_lt date
| Due_date_gte date
| Due_date_lte date
| Status_eq status
| Category_id_eq uuid
| Q_and q q
| Q_not q

fun q_matches :: "q \<Rightarrow> task \<Rightarrow> bool" where
  "q_matches (Due_date_lt d) t = (case due_date t of Some x \<Rightarrow> x < d | None \<Rightarrow> False)"
| "q_matches (Due_date_gte d) t = (case due_date t of Some x \<Rightarrow> d \<le> x | None \<Rightarrow> False)"
| "q_matches (Due_date_lte d) t = (case due_date t of Some x \<Rightarrow> x \<le> d | None \<Rightarrow> False)"
| "q_matches (Status_eq s) t = (status t = s)"
| "q_matches (Category_id_eq k) t = (category_id t = Some k)"
| "q_matches (Q_and a b) t = (q_matches a t \<and> q_matches b t)"
| "q_matches (Q_not a) t = (\<not> q_matches a t)"

definition qs_filter :: "q \<Rightarrow> task list \<Rightarrow> task list" where
  "qs_filter cond queryset = filter (q_matches cond) queryset"

definition qs_exclude :: "q \<Rightarrow> task list \<Rightarrow> task list" where
  "qs_exclude cond queryset = filter (\<lambda>t. \<not> q_matches cond t) queryset"

text \<open>
  \<open>filter_csv_field(queryset, name, value)\<close>: the column called \<open>name\<close> is passed as
  its accessor, the stored text of the row.
\<close>

definition filter_csv_field :: "task list \<Rightarrow> (task \<Rightarrow> string) \<Rightarrow> string \<Rightarrow> task list" where
  "filter_csv_field queryset column v =
     (let vals = map strip (filter (\<lambda>x. strip x \<noteq> []) (split CHR '','' v))
      in if vals \<noteq> [] then filter (\<lambda>t. column t \<in> set vals) queryset
         else queryset)"

definition filter_overdue :: "date \<Rightarrow> task list \<Rightarrow> bool \<Rightarrow> task list" where
  "filter_overdue today queryset v =
     (let overdue_q = Q_and (Due_date_lt today) (Q_not (Status_eq DONE))
      in if v then qs_filter overdue_q queryset
         else qs_exclude overdue_q queryset)"

text \<open>
  The query parameters of \<open>GET /tasks/\<close>, \<open>None\<close> when absent. A text parameter is
  stripped by the filter's form field, and a filter whose value is empty is skipped.
\<close>

record task_params =
  p_status :: "string option"
  p_priority :: "string option"
  p_category :: "uuid option"
  p_overdue :: "bool option"
  p_due_date_min :: "date option"
  p_due_date_max :: "date option"

definition char_filter :: "(task \<Rightarrow> string) \<Rightarrow> string option \<Rightarrow> task list \<Rightarrow> task list" where
  "char_filter column param queryset =
     (case param of
        None \<Rightarrow> queryset
      | Some raw \<Rightarrow>
          if strip raw = [] then queryset
          else filter_csv_field queryset column (strip raw))"

text \<open>The declared filters on a field with a lookup; an absent parameter is skipped.\<close>

definition lookup_filter :: "('a \<Rightarrow> q) \<Rightarrow> 'a option \<Rightarrow> task list \<Rightarrow> task list" where
  "lookup_filter cond param queryset =
     (case param of
        None \<Rightarrow> queryset
      | Some v \<Rightarrow> qs_filter (cond v) queryset)"

definition boolean_filter :: "date \<Rightarrow> bool option \<Rightarrow> task list \<Rightarrow> task list" where
  "boolean_filter today param queryset =
     (case param of
        None \<Rightarrow> queryset
      | Some v \<Rightarrow> filter_overdue today queryset v)"

text \<open>The filter set applies its filters one after the other, in declaration order.\<close>

definition TaskFilter_filter_queryset :: "date \<Rightarrow> task_params \<Rightarrow> task list \<Rightarrow> task list" where
  "TaskFilter_filter_queryset today params queryset =
     lookup_filter Due_date_lte (p_due_date_max params)
       (lookup_filter Due_date_gte (p_due_date_min params)
         (boolean_filter today (p_overdue params)
           (lookup_filter Category_id_eq (p_category params)
             (char_filter (\<lambda>t. priority_value (priority t)) (p_priority params)
               (char_filter (\<lambda>t. status_value (status t)) (p_status params) queryset)))))"

section \<open>Permissions and views (apps/tasks/permissions.py, apps/tasks/views.py)\<close>

datatype error =
  Http404
| PermissionDenied
| ValidationError errors
| IntegrityError

fun status_code :: "error \<Rightarrow> nat" where
  "status_code Http404 = 404"
| "status_code PermissionDenied = 403"
| "status_code (ValidationError _) = 400"
| "status_code IntegrityError = 500"

definition has_object_permission :: "user_id \<Rightarrow> 'a model_scheme \<Rightarrow> bool" where
  "has_object_permission request_user obj = (user obj = request_user)"

text \<open>
  \<open>get_object\<close> of the generic view: the row is looked up by primary key in the
  filtered queryset of the view (not found when it is not there), and then the
  object-level permission is checked.
\<close>

definition get_object :: "user_id \<Rightarrow> 'a model_scheme list \<Rightarrow> uuid \<Rightarrow> error + 'a model_scheme" where
  "get_object request_user queryset k =
     (case find (\<lambda>obj. pk obj = k) queryset of
        None \<Rightarrow> Inl Http404
      | Some obj \<Rightarrow>
          if has_object_permission request_user obj then Inr obj
          else Inl PermissionDenied)"

subsection \<open>TaskViewSet\<close>

definition TaskViewSet_get_queryset :: "user_id \<Rightarrow> database \<Rightarrow> task list" where
  "TaskViewSet_get_queryset request_user db = filter (\<lambda>t. user t = request_user) (tasks db)"

text \<open>
  The list action returns the filtered queryset; search, ordering and pagination
  select and arrange rows of it and are not modelled.
\<close>

definition TaskViewSet_list :: "date \<Rightarrow> user_id \<Rightarrow> task_params \<Rightarrow> database \<Rightarrow> task list" where
  "TaskViewSet_list today request_user params db =
     TaskFilter_filter_queryset today params (TaskViewSet_get_queryset request_user db)"

definition TaskViewSet_get_object :: "date \<Rightarrow> user_id \<Rightarrow> task_params \<Rightarrow> database \<Rightarrow> uuid \<Rightarrow> error + task" where
  "TaskViewSet_get_object today request_user params db k =
     get_object request_user
       (TaskFilter_filter_queryset today params (TaskViewSet_get_queryset request_user db)) k"

definition TaskViewSet_retrieve :: "date \<Rightarrow> user_id \<Rightarrow> task_params \<Rightarrow> database \<Rightarrow> uuid \<Rightarrow> (error + task) \<times> database" where
  "TaskViewSet_retrieve today request_user params db k =
     (TaskViewSet_get_object today request_user params db k, db)"

text \<open>\<open>perform_create\<close> saves the serializer with the authenticated user as the owner.\<close>

definition TaskViewSet_create :: "date \<Rightarrow> user_id \<Rightarrow> uuid \<Rightarrow> database \<Rightarrow> task_data \<Rightarrow> (error + task) \<times> database" where
  "TaskViewSet_create today request_user new_pk db data =
     (case TaskSerializer_run_validation today (Some request_user) (categories db) None False data of
        Inl e \<Rightarrow> (Inl (ValidationError e), db)
      | Inr attrs \<Rightarrow>
          (let t = create_task new_pk request_user attrs
           in (Inr t, db\<lparr>tasks := tasks db @ [t]\<rparr>)))"

definition TaskViewSet_partial_update ::
    "date \<Rightarrow> user_id \<Rightarrow> task_params \<Rightarrow> database \<Rightarrow> uuid \<Rightarrow> task_data \<Rightarrow> (error + task) \<times> database" where
  "TaskViewSet_partial_update today request_user params db k data =
     (case TaskViewSet_get_object today request_user params db k of
        Inl e \<Rightarrow> (Inl e, db)
      | Inr instance \<Rightarrow>
          (case TaskSerializer_run_validation today (Some request_user) (categories db)
                  (Some instance) True data of
             Inl e \<Rightarrow> (Inl (ValidationError e), db)
           | Inr attrs \<Rightarrow>
               (let t = update_task instance attrs
                in (Inr t, db\<lparr>tasks := map (\<lambda>r. if pk r = pk t then t else r) (tasks db)\<rparr>))))"

definition TaskViewSet_destroy :: "date \<Rightarrow> user_id \<Rightarrow> task_params \<Rightarrow> database \<Rightarrow> uuid \<Rightarrow> (error + unit) \<times> database" where
  "TaskViewSet_destroy today request_user params db k =
     (case TaskViewSet_get_object today request_user params db k of
        Inl e \<Rightarrow> (Inl e, db)
      | Inr instance \<Rightarrow> (Inr (), db\<lparr>tasks := filter (\<lambda>r. pk r \<noteq> pk instance) (tasks db)\<rparr>))"

subsection \<open>Task statistics\<close>

text \<open>
  \<open>values_list(col).annotate(count=Count("id"))\<close> groups the rows by the column and
  counts each group; \<open>dict\<close> of the pairs is an association list, read with \<open>.get\<close>.
\<close>

definition group_count :: "(task \<Rightarrow> string) \<Rightarrow> task list \<Rightarrow> (string \<times> nat) list" where
  "group_count column queryset =
     map (\<lambda>k. (k, length (filter (\<lambda>t. column t = k) queryset))) (remdups (map column queryset))"

definition dict_get :: "('k \<times> 'v) list \<Rightarrow> 'k \<Rightarrow> 'v \<Rightarrow> 'v" where
  "dict_get d k dflt = (case map_of d k of Some v \<Rightarrow> v | None \<Rightarrow> dflt)"

record task_stats =
  total :: nat
  by_status :: "(string \<times> nat) list"
  by_priority :: "(string \<times> nat) list"
  overdue :: nat

definition stats :: "date \<Rightarrow> user_id \<Rightarrow> database \<Rightarrow> task_stats" where
  "stats today request_user db =
     (let qs = TaskViewSet_get_queryset request_user db;
          status_counts = group_count (\<lambda>t. status_value (status t)) qs;
          priority_counts = group_count (\<lambda>t. priority_value (priority t)) qs
      in \<lparr>total = length qs,
          by_status = map (\<lambda>s. (status_value s, dict_get status_counts (status_value s) 0)) Status,
          by_priority = map (\<lambda>p. (priority_value p, dict_get priority_counts (priority_value p) 0)) Priority,
          overdue = length (qs_exclude (Status_eq DONE) (qs_filter (Due_date_lt today) qs))\<rparr>)"

subsection \<open>CategoryViewSet\<close>

text \<open>
  The queryset of the category views is the owner's categories. Its annotation
  \<open>task_count\<close> is computed by the list action; the ordering by name is not modelled.
\<close>

definition CategoryViewSet_get_queryset :: "user_id \<Rightarrow> database \<Rightarrow> category list" where
  "CategoryViewSet_get_queryset request_user db = filter (\<lambda>c. user c = request_user) (categories db)"

definition CategoryViewSet_list :: "user_id \<Rightarrow> database \<Rightarrow> (category \<times> nat) list" where
  "CategoryViewSet_list request_user db =
     map (\<lambda>c. (c, length (filter (\<lambda>t. category_id t = Some (pk c)) (tasks db))))
       (CategoryViewSet_get_queryset request_user db)"

definition CategoryViewSet_get_object :: "user_id \<Rightarrow> database \<Rightarrow> uuid \<Rightarrow> error + category" where
  "CategoryViewSet_get_object request_user db k =
     get_object request_user (CategoryViewSet_get_queryset request_user db) k"

definition CategoryViewSet_retrieve :: "user_id \<Rightarrow> database \<Rightarrow> uuid \<Rightarrow> (error + category) \<times> database" where
  "CategoryViewSet_retrieve request_user db k = (CategoryViewSet_get_object request_user db k, db)"

text \<open>
  The table constraint \<open>unique_category_per_user\<close>: no other row has the same
  \<open>name\<close> (exactly) and \<open>user\<close>. A write that breaks it raises an integrity error.
\<close>

definition unique_category_per_user :: "category list \<Rightarrow> category \<Rightarrow> bool" where
  "unique_category_per_user rows c =
     (filter (\<lambda>r. pk r \<noteq> pk c \<and> name r = name c \<and> user r = user c) rows = [])"

definition CategoryViewSet_create :: "user_id \<Rightarrow> uuid \<Rightarrow> database \<Rightarrow> category_data \<Rightarrow> (error + category) \<times> database" where
  "CategoryViewSet_create request_user new_pk db data =
     (case CategorySerializer_run_validation (Some request_user) (categories db) None False data of
        Inl e \<Rightarrow> (Inl (ValidationError e), db)
      | Inr attrs \<Rightarrow>
          (let c = create_category new_pk request_user attrs
           in if unique_category_per_user (categories db) c
              then (Inr c, db\<lparr>categories := categories db @ [c]\<rparr>)
              else (Inl IntegrityError, db)))"

definition CategoryViewSet_partial_update ::
    "user_id \<Rightarrow> database \<Rightarrow> uuid \<Rightarrow> category_data \<Rightarrow> (error + category) \<times> database" where
  "CategoryViewSet_partial_update request_user db k data =
     (case CategoryViewSet_get_object request_user db k of
        Inl e \<Rightarrow> (Inl e, db)
      | Inr instance \<Rightarrow>
          (case CategorySerializer_run_validation (Some request_user) (categories db)
                  (Some instance) True data of
             Inl e \<Rightarrow> (Inl (ValidationError e), db)
           | Inr attrs \<Rightarrow>
               (let c = update_category instance attrs
                in if unique_category_per_user (categories db) c
                   then (Inr c, db\<lparr>categories := map (\<lambda>r. if pk r = pk c then c else r) (categories db)\<rparr>)
                   else (Inl IntegrityError, db))))"

text \<open>Deleting a category nulls the reference of the tasks that had it.\<close>

definition CategoryViewSet_destroy :: "user_id \<Rightarrow> database \<Rightarrow> uuid \<Rightarrow> (error + unit) \<times> database" where
  "CategoryViewSet_destroy request_user db k =
     (case CategoryViewSet_get_object request_user db k of
        Inl e \<Rightarrow> (Inl e, db)
      | Inr instance \<Rightarrow>
          (Inr (),
           db\<lparr>categories := filter (\<lambda>r. pk r \<noteq> pk instance) (categories db),
              tasks := map (\<lambda>t. if category_id t = Some (pk instance) then t\<lparr>category_id := None\<rparr> else t)
                         (tasks db)\<rparr>))"

section \<open>Password reset request (apps/accounts)\<close>

record account =
  user_pk :: user_id
  username :: string
  email :: string
  first_name :: string
  is_active :: bool

record settings =
  FRONTEND_BASE_URL :: string
  SENDGRID_API_KEY :: string

text \<open>
  A reset mail is determined by its recipient, the name it greets and the reset link;
  the subject and the HTML around them are fixed text.
\<close>

record mail =
  to_email :: string
  display_name :: string
  link :: string

text \<open>
  \<open>_send_email\<close>: nothing is sent without an API key; otherwise the message is handed
  to the mail service, whose success or failure is the argument \<open>sendgrid\<close>. The result
  is the returned flag and the messages handed off. It never raises.
\<close>

definition send_email :: "settings \<Rightarrow> (mail \<Rightarrow> bool) \<Rightarrow> mail \<Rightarrow> bool \<times> mail list" where
  "send_email conf sendgrid m =
     (if SENDGRID_API_KEY conf = [] then (False, [])
      else if sendgrid m then (True, [m])
      else (False, []))"

definition send_password_reset_email :: "settings \<Rightarrow> (mail \<Rightarrow> bool) \<Rightarrow> account \<Rightarrow> string \<Rightarrow> bool \<times> mail list" where
  "send_password_reset_email conf sendgrid u reset_url =
     send_email conf sendgrid
       \<lparr>to_email = email u,
        display_name = (if first_name u \<noteq> [] then first_name u else username u),
        link = reset_url\<rparr>"

text \<open>\<open>str.lower\<close> on the code points below 256.\<close>

definition lower_char :: "char \<Rightarrow> char" where
  "lower_char c =
     (let n = (of_char c :: nat)
      in if (65 \<le> n \<and> n \<le> 90) \<or> (192 \<le> n \<and> n \<le> 222 \<and> n \<noteq> 215) then char_of (n + 32) else c)"

definition validate_email :: "string \<Rightarrow> string" where
  "validate_email v = strip (map lower_char v)"

text \<open>
  The serializer has the single required field \<open>email\<close>: a character field followed by
  the framework's email validator, which is the argument \<open>valid_email\<close>.
\<close>

definition email_field :: "(string \<Rightarrow> bool) \<Rightarrow> string \<Rightarrow> detail + string" where
  "email_field valid_email data =
     (case char_field None False data of
        Inl e \<Rightarrow> Inl e
      | Inr v \<Rightarrow> if valid_email v then Inr (validate_email v) else Inl (Invalid ''Enter a valid email address.''))"

definition PasswordResetRequestSerializer_run_validation :: "(string \<Rightarrow> bool) \<Rightarrow> string option \<Rightarrow> errors + string" where
  "PasswordResetRequestSerializer_run_validation valid_email data =
     (case data of
        None \<Rightarrow> Inl [(''email'', Required)]
      | Some raw \<Rightarrow>
          (case email_field valid_email raw of
             Inl e \<Rightarrow> Inl [(''email'', e)]
           | Inr v \<Rightarrow> Inr v))"

datatype body = Data "(string \<times> string) list" | Errors errors

type_synonym response = "nat \<times> body"

text \<open>
  \<open>PasswordResetRequestView.post\<close>. The user id encoding and the token generator of the
  framework are the arguments \<open>urlsafe_uid\<close> and \<open>make_token\<close>. The result is the
  response and the mails handed off.
\<close>

definition post ::
    "settings \<Rightarrow> (string \<Rightarrow> bool) \<Rightarrow> (user_id \<Rightarrow> string) \<Rightarrow> (account \<Rightarrow> string) \<Rightarrow> (mail \<Rightarrow> bool)
      \<Rightarrow> account list \<Rightarrow> string option \<Rightarrow> response \<times> mail list" where
  "post conf valid_email urlsafe_uid make_token sendgrid users data =
     (case PasswordResetRequestSerializer_run_validation valid_email data of
        Inl e \<Rightarrow> ((400, Errors e), [])
      | Inr addr \<Rightarrow>
          (let success_msg =
                 Data [(''detail'', ''If an account with that email exists, a reset link has been sent.'')]
           in (case find (\<lambda>u. email u = addr \<and> is_active u) users of
                 None \<Rightarrow> ((200, success_msg), [])
               | Some u \<Rightarrow>
                   (let reset_url = FRONTEND_BASE_URL conf @ ''/password-reset/confirm''
                          @ ''?uid='' @ urlsafe_uid (user_pk u) @ ''&token='' @ make_token u
                    in ((200, success_msg), snd (send_password_reset_email conf sendgrid u reset_url))))))"

section \<open>Reference notions for the properties\<close>

text \<open>The transition table of the task status, as a set of (current, requested) pairs.\<close>

definition transition_table :: "(status \<times> status) set" where
  "transition_table =
     {(TODO, TODO), (TODO, IN_PROGRESS),
      (IN_PROGRESS, IN_PROGRESS), (IN_PROGRESS, DONE), (IN_PROGRESS, TODO),
      (DONE, DONE), (DONE, TODO)}"

text \<open>Sample data: a request without query parameters, an empty body, and a task.\<close>

definition no_params :: task_params where
  "no_params = \<lparr>p_status = None, p_priority = None, p_category = None, p_overdue = None,
                 p_due_date_min = None, p_due_date_max = None\<rparr>"

definition no_data :: task_data where
  "no_data = \<lparr>d_title = None, d_description = None, d_status = None, d_priority = None,
               d_due_date = None, d_category = None\<rparr>"

definition sample_task :: task where
  "sample_task = \<lparr>pk = 7, user = 1, title = ''T'', description = [], status = TODO,
                   priority = MEDIUM, due_date = None, category_id = None\<rparr>"

text \<open>The database without the task, or without the category, that has a given key.\<close>

definition without_task :: "database \<Rightarrow> uuid \<Rightarrow> database" where
  "without_task db k = db\<lparr>tasks := filter (\<lambda>r. pk r \<noteq> k) (tasks db)\<rparr>"

definition without_category :: "database \<Rightarrow> uuid \<Rightarrow> database" where
  "without_category db k = db\<lparr>categories := filter (\<lambda>r. pk r \<noteq> k) (categories db)\<rparr>"

definition sample_category :: category where
  "sample_category = \<lparr>pk = 3, user = 1, name = ''Work'', colour = ''#ef4444''\<rparr>"

definition sample_db :: database where
  "sample_db = \<lparr>categories = [sample_category], tasks = [sample_task]\<rparr>"

definition sample_account :: account where
  "sample_account = \<lparr>user_pk = 1, username = ''alice'', email = ''alice@example.com'',
                      first_name = [], is_active = True\<rparr>"

definition sample_settings :: settings where
  "sample_settings = \<lparr>FRONTEND_BASE_URL = ''http://localhost:5173'', SENDGRID_API_KEY = ''key''\<rparr>"


section \<open>Verified properties\<close>

subsection \<open>Lookups and filters\<close>

lemma get_object_Inr:
  "get_object u qs k = Inr obj \<Longrightarrow> obj \<in> set qs \<and> pk obj = k \<and> user obj = u"
  unfolding get_object_def has_object_permission_def
  by (auto simp: find_Some_iff split: option.splits if_splits)

lemma char_filter_subset: "set (char_filter col p qs) \<subseteq> set qs"
  by (auto simp: char_filter_def filter_csv_field_def Let_def split: option.splits)

lemma filter_overdue_subset: "set (filter_overdue today qs v) \<subseteq> set qs"
  by (auto simp: filter_overdue_def qs_filter_def qs_exclude_def Let_def)

lemma lookup_filter_subset: "set (lookup_filter c p qs) \<subseteq> set qs"
  by (cases p) (simp_all add: lookup_filter_def qs_filter_def)

lemma boolean_filter_subset: "set (boolean_filter today p qs) \<subseteq> set qs"
  using filter_overdue_subset by (cases p) (simp_all add: boolean_filter_def)

lemma TaskFilter_subset:
  "set (TaskFilter_filter_queryset today params qs) \<subseteq> set qs"
  unfolding TaskFilter_filter_queryset_def
  by (meson lookup_filter_subset boolean_filter_subset char_filter_subset subset_trans)

lemma TaskFilter_no_params [simp]: "TaskFilter_filter_queryset today no_params qs = qs"
  by (simp add: TaskFilter_filter_queryset_def no_params_def lookup_filter_def
      boolean_filter_def char_filter_def)

lemma task_get_object_Inr:
  assumes "TaskViewSet_get_object today u params db k = Inr inst"
  shows "inst \<in> set (tasks db) \<and> pk inst = k \<and> user inst = u"
proof -
  from assms have "inst \<in> set (TaskFilter_filter_queryset today params (TaskViewSet_get_queryset u db))
      \<and> pk inst = k \<and> user inst = u"
    unfolding TaskViewSet_get_object_def by (rule get_object_Inr)
  moreover have "set (TaskViewSet_get_queryset u db) \<subseteq> set (tasks db)"
    by (simp add: TaskViewSet_get_queryset_def)
  ultimately show ?thesis using TaskFilter_subset by blast
qed

lemma find_map_replace:
  "x \<in> set xs \<Longrightarrow> pk x = k \<Longrightarrow> pk t = k \<Longrightarrow>
     find (\<lambda>r. pk r = k) (map (\<lambda>r. if pk r = k then t else r) xs) = Some t"
  by (induction xs) auto

lemma pk_update_task [simp]: "pk (update_task inst attrs) = pk inst"
  by (simp add: update_task_def)

lemma user_update_task [simp]: "user (update_task inst attrs) = user inst"
  by (simp add: update_task_def)

subsection \<open>Status transitions\<close>

lemma valid_transitions_table:
  "requested \<in> set (VALID_TRANSITIONS current) \<longleftrightarrow> (current, requested) \<in> transition_table"
  by (cases current; cases requested; simp add: transition_table_def)

lemma validate_status:
  "a_status attrs = Some requested \<Longrightarrow>
   validate (Some inst) attrs =
     (if (status inst, requested) \<in> transition_table then Inr attrs
      else Inl [(''status'', Invalid (transition_message (status inst) requested))])"
  by (simp add: validate_def valid_transitions_table)

lemma validate_no_status: "a_status attrs = None \<Longrightarrow> validate instance attrs = Inr attrs"
  by (simp add: validate_def split: option.splits)

lemma validate_no_instance: "validate None attrs = Inr attrs"
  by (simp add: validate_def)

text \<open>A body with only a status that is a valid choice passes the field-level validation.\<close>

lemma status_only_fields:
  "TaskSerializer_to_internal_value today request cats instance True
       (no_data\<lparr>d_status := Some (status_value s)\<rparr>)
     = Inr \<lparr>a_title = None, a_description = None, a_status = Some s, a_priority = None,
            a_due_date = None, a_category = None\<rparr>"
  by (cases s) (simp_all add: TaskSerializer_to_internal_value_def no_data_def run_field_def
      choice_field_def Status_def)

text \<open>
  C1. A task update (PATCH on a task the requester can reach) whose validated attributes
  include a status: when the pair (current status, requested status) is in the
  transition table, the update succeeds and the row stored under the task's key has the
  requested status; for every other pair the update is rejected with an error tagged
  \<open>status\<close> and the database is unchanged.
\<close>

theorem status_transition_enforced:
  assumes "TaskViewSet_get_object today u params db k = Inr inst"
      and "TaskSerializer_to_internal_value today (Some u) (categories db) (Some inst) True data = Inr attrs"
      and "a_status attrs = Some requested"
  shows "(case TaskViewSet_partial_update today u params db k data of (res, db') \<Rightarrow>
           if (status inst, requested) \<in> transition_table
           then res = Inr (update_task inst attrs) \<and> status (update_task inst attrs) = requested
                \<and> map_option status (find (\<lambda>r. pk r = k) (tasks db')) = Some requested
           else res = Inl (ValidationError [(''status'', Invalid (transition_message (status inst) requested))])
                \<and> db' = db)"
proof -
  from assms(1) have g: "inst \<in> set (tasks db)" "pk inst = k"
    using task_get_object_Inr by blast+
  note v = validate_status [OF assms(3), of inst]
  show ?thesis
  proof (cases "(status inst, requested) \<in> transition_table")
    case True
    have st: "status (update_task inst attrs) = requested"
      using assms(3) by (simp add: update_task_def)
    have f: "find (\<lambda>r. pk r = k) (map (\<lambda>r. if pk r = k then update_task inst attrs else r) (tasks db))
        = Some (update_task inst attrs)"
      using g by (intro find_map_replace[of inst]) simp_all
    show ?thesis
      using True assms(1,2) v st f g
      by (simp add: TaskViewSet_partial_update_def TaskSerializer_run_validation_def Let_def)
  next
    case False
    show ?thesis
      using False assms(1,2) v
      by (simp add: TaskViewSet_partial_update_def TaskSerializer_run_validation_def)
  qed
qed

theorem status_transition_enforced_witness:
  "TaskViewSet_get_object 100 1 no_params \<lparr>categories = [], tasks = [sample_task]\<rparr> 7 = Inr sample_task
   \<and> (TODO, IN_PROGRESS) \<in> transition_table
   \<and> (TODO, DONE) \<notin> transition_table
   \<and> (case TaskViewSet_partial_update 100 1 no_params \<lparr>categories = [], tasks = [sample_task]\<rparr> 7
             (no_data\<lparr>d_status := Some ''in_progress''\<rparr>) of
        (res, db') \<Rightarrow>
          res = Inr (sample_task\<lparr>status := IN_PROGRESS\<rparr>)
          \<and> map_option status (find (\<lambda>r. pk r = 7) (tasks db')) = Some IN_PROGRESS)
   \<and> (case TaskViewSet_partial_update 100 1 no_params \<lparr>categories = [], tasks = [sample_task]\<rparr> 7
             (no_data\<lparr>d_status := Some ''done''\<rparr>) of
        (res, db') \<Rightarrow>
          res = Inl (ValidationError [(''status'', Invalid (transition_message TODO DONE))])
          \<and> db' = \<lparr>categories = [], tasks = [sample_task]\<rparr>)"
proof -
  let ?db = "\<lparr>categories = [], tasks = [sample_task]\<rparr>"
  have g: "TaskViewSet_get_object 100 1 no_params ?db 7 = Inr sample_task"
    by (simp add: TaskViewSet_get_object_def TaskViewSet_get_queryset_def get_object_def
        has_object_permission_def sample_task_def)
  have f1: "TaskSerializer_to_internal_value 100 (Some 1) (categories ?db) (Some sample_task) True
      (no_data\<lparr>d_status := Some ''in_progress''\<rparr>)
      = Inr \<lparr>a_title = None, a_description = None, a_status = Some IN_PROGRESS, a_priority = None,
            a_due_date = None, a_category = None\<rparr>"
    using status_only_fields [of 100 "Some 1" "[]" "Some sample_task" IN_PROGRESS] by simp
  have f2: "TaskSerializer_to_internal_value 100 (Some 1) (categories ?db) (Some sample_task) True
      (no_data\<lparr>d_status := Some ''done''\<rparr>)
      = Inr \<lparr>a_title = None, a_description = None, a_status = Some DONE, a_priority = None,
            a_due_date = None, a_category = None\<rparr>"
    using status_only_fields [of 100 "Some 1" "[]" "Some sample_task" DONE] by simp
  have t1: "(TODO, IN_PROGRESS) \<in> transition_table" and t2: "(TODO, DONE) \<notin> transition_table"
    by (simp_all add: transition_table_def)
  have st: "status sample_task = TODO" by (simp add: sample_task_def)
  have u: "update_task sample_task \<lparr>a_title = None, a_description = None, a_status = Some IN_PROGRESS,
      a_priority = None, a_due_date = None, a_category = None\<rparr> = sample_task\<lparr>status := IN_PROGRESS\<rparr>"
    by (simp add: update_task_def)
  have a: "case TaskViewSet_partial_update 100 1 no_params ?db 7
             (no_data\<lparr>d_status := Some ''in_progress''\<rparr>) of
        (res, db') \<Rightarrow>
          res = Inr (sample_task\<lparr>status := IN_PROGRESS\<rparr>)
          \<and> map_option status (find (\<lambda>r. pk r = 7) (tasks db')) = Some IN_PROGRESS"
    using status_transition_enforced [OF g f1, of IN_PROGRESS] t1 unfolding u st
    by (simp split: prod.splits)
  have b: "case TaskViewSet_partial_update 100 1 no_params ?db 7
             (no_data\<lparr>d_status := Some ''done''\<rparr>) of
        (res, db') \<Rightarrow>
          res = Inl (ValidationError [(''status'', Invalid (transition_message TODO DONE))])
          \<and> db' = ?db"
    using status_transition_enforced [OF g f2, of DONE] t2 unfolding st
    by (simp split: prod.splits)
  show ?thesis using g t1 t2 a b by blast
qed

subsection \<open>Field-level validation of a task body\<close>

lemma to_internal_value_Inr:
  assumes "TaskSerializer_to_internal_value today request cats instance partial data = Inr attrs"
  shows "run_field (\<not> partial) (d_title data) (char_field (Some 200) False) = Inr (a_title attrs)"
    and "run_field False (d_description data) (char_field None True) = Inr (a_description attrs)"
    and "run_field False (d_status data) (choice_field status_value Status) = Inr (a_status attrs)"
    and "run_field False (d_priority data) (choice_field priority_value Priority) = Inr (a_priority attrs)"
    and "run_field False (d_due_date data) (validate_due_date today instance) = Inr (a_due_date attrs)"
    and "run_field False (d_category data) (category_field request cats) = Inr (a_category attrs)"
  using assms
  by (auto simp: TaskSerializer_to_internal_value_def Let_def split: sum.splits)

lemma to_internal_value_Inl:
  assumes "TaskSerializer_to_internal_value today request cats instance partial data = Inl errs"
  shows "errs = field_error ''title'' (run_field (\<not> partial) (d_title data) (char_field (Some 200) False))
     @ field_error ''description'' (run_field False (d_description data) (char_field None True))
     @ field_error ''status'' (run_field False (d_status data) (choice_field status_value Status))
     @ field_error ''priority'' (run_field False (d_priority data) (choice_field priority_value Priority))
     @ field_error ''due_date'' (run_field False (d_due_date data) (validate_due_date today instance))
     @ field_error ''category'' (run_field False (d_category data) (category_field request cats))"
  using assms
  by (auto simp: TaskSerializer_to_internal_value_def Let_def split: sum.splits)

lemma choice_field_status:
  "choice_field status_value Status v = Inr s \<Longrightarrow> status_value s = v"
  by (auto simp: choice_field_def find_Some_iff split: option.splits)

lemma run_field_absent: "run_field False None f = Inr None"
  by (simp add: run_field_def)

lemma run_field_present:
  "run_field required (Some x) f = Inr r \<Longrightarrow> \<exists>v. r = Some v \<and> f x = Inr v"
  by (auto simp: run_field_def split: sum.splits)

subsection \<open>Task creation\<close>

lemma create_run_validation:
  "TaskSerializer_run_validation today request cats None partial data
     = TaskSerializer_to_internal_value today request cats None partial data"
  by (simp add: TaskSerializer_run_validation_def validate_no_instance split: sum.splits)

text \<open>
  C2, as the code has it. On creation there is no instance, so the object-level
  validation never looks at the transition table: the result of the whole validation is
  the result of the field-level validation. The status of the created task is the status
  the body supplies when it supplies one, and \<open>todo\<close> when the body has no status.
\<close>

theorem create_status_from_body:
  assumes "TaskViewSet_create today u new_pk db data = (Inr t, db')"
  shows "TaskSerializer_run_validation today (Some u) (categories db) None False data
           = TaskSerializer_to_internal_value today (Some u) (categories db) None False data
         \<and> tasks db' = tasks db @ [t]
         \<and> (case d_status data of
               None \<Rightarrow> status t = TODO
             | Some v \<Rightarrow> status_value (status t) = v)"
proof -
  from assms obtain attrs where
    a: "TaskSerializer_to_internal_value today (Some u) (categories db) None False data = Inr attrs"
    and t: "t = create_task new_pk u attrs" and d: "db' = db\<lparr>tasks := tasks db @ [t]\<rparr>"
    by (auto simp: TaskViewSet_create_def create_run_validation Let_def split: sum.splits)
  note s = to_internal_value_Inr(3) [OF a]
  have "case d_status data of None \<Rightarrow> status t = TODO | Some v \<Rightarrow> status_value (status t) = v"
  proof (cases "d_status data")
    case None
    with s have "a_status attrs = None" by (simp add: run_field_def)
    then show ?thesis using None t by (simp add: create_task_def)
  next
    case (Some v)
    with s obtain st where "a_status attrs = Some st" "choice_field status_value Status v = Inr st"
      using run_field_present by metis
    then show ?thesis using Some t choice_field_status by (simp add: create_task_def)
  qed
  then show ?thesis using d by (simp add: create_run_validation)
qed

theorem create_status_from_body_witness:
  "TaskViewSet_create 100 1 7 \<lparr>categories = [], tasks = []\<rparr>
       (no_data\<lparr>d_title := Some ''T'', d_status := Some ''in_progress''\<rparr>)
     = (Inr (sample_task\<lparr>status := IN_PROGRESS\<rparr>),
        \<lparr>categories = [], tasks = [sample_task\<lparr>status := IN_PROGRESS\<rparr>]\<rparr>)
   \<and> status_value (status (sample_task\<lparr>status := IN_PROGRESS\<rparr>)) = ''in_progress''"
proof -
  have c: "TaskViewSet_create 100 1 7 \<lparr>categories = [], tasks = []\<rparr>
       (no_data\<lparr>d_title := Some ''T'', d_status := Some ''in_progress''\<rparr>)
     = (Inr (sample_task\<lparr>status := IN_PROGRESS\<rparr>),
        \<lparr>categories = [], tasks = [sample_task\<lparr>status := IN_PROGRESS\<rparr>]\<rparr>)"
    by (simp add: TaskViewSet_create_def TaskSerializer_run_validation_def
        TaskSerializer_to_internal_value_def no_data_def run_field_def choice_field_def Status_def
        char_field_def strip_def isspace_def validate_def create_task_def sample_task_def Let_def)
  show ?thesis using create_status_from_body [OF c] c by (simp add: no_data_def)
qed

text \<open>
  A creation request whose body has the status \<open>done\<close> creates a task whose stored
  status is \<open>done\<close>, not \<open>todo\<close>.
\<close>

theorem create_with_status_done:
  "TaskViewSet_create 100 1 7 \<lparr>categories = [], tasks = []\<rparr>
       (no_data\<lparr>d_title := Some ''T'', d_status := Some ''done''\<rparr>)
     = (Inr (sample_task\<lparr>status := DONE\<rparr>),
        \<lparr>categories = [], tasks = [sample_task\<lparr>status := DONE\<rparr>]\<rparr>)
   \<and> status (sample_task\<lparr>status := DONE\<rparr>) \<noteq> TODO"
  by (simp add: TaskViewSet_create_def TaskSerializer_run_validation_def
      TaskSerializer_to_internal_value_def no_data_def run_field_def choice_field_def Status_def
      char_field_def strip_def isspace_def validate_def create_task_def sample_task_def Let_def)

subsection \<open>Ownership scoping\<close>

lemma find_None_filter_owner:
  assumes "distinct (map pk rows)" and "x \<in> set rows" and "user x \<noteq> a"
  shows "find (\<lambda>obj. pk obj = pk x) (filter (\<lambda>r. user r = a) rows) = None"
proof -
  have "\<And>y. y \<in> set rows \<Longrightarrow> pk y = pk x \<Longrightarrow> y = x"
    using assms(1,2) by (meson distinct_map inj_onD)
  then show ?thesis using assms(3) by (auto simp: find_None_iff)
qed

lemma find_None_subset:
  "find P ys = None \<Longrightarrow> set xs \<subseteq> set ys \<Longrightarrow> find P xs = None"
  by (auto simp: find_None_iff)

lemma find_None_absent:
  "k \<notin> pk ` set rows \<Longrightarrow> set xs \<subseteq> set rows \<Longrightarrow> find (\<lambda>obj. pk obj = k) xs = None"
  by (auto simp: find_None_iff)

text \<open>The object-level permission never refuses a row of the owner's queryset.\<close>

lemma find_Some_member: "find P xs = Some x \<Longrightarrow> x \<in> set xs \<and> P x"
  by (induction xs) (auto split: if_splits)

lemma get_object_never_forbidden:
  "get_object a (filter (\<lambda>r. user r = a) rows) k \<noteq> Inl PermissionDenied"
  by (auto simp: get_object_def has_object_permission_def split: option.splits
      dest!: find_Some_member)

lemma task_get_object_foreign:
  assumes "distinct (map pk (tasks db))" and "t \<in> set (tasks db)" and "user t \<noteq> a"
  shows "TaskViewSet_get_object today a params db (pk t) = Inl Http404"
proof -
  have "find (\<lambda>obj. pk obj = pk t) (TaskViewSet_get_queryset a db) = None"
    unfolding TaskViewSet_get_queryset_def using assms by (rule find_None_filter_owner)
  then have "find (\<lambda>obj. pk obj = pk t)
      (TaskFilter_filter_queryset today params (TaskViewSet_get_queryset a db)) = None"
    using TaskFilter_subset by (rule find_None_subset)
  then show ?thesis by (simp add: TaskViewSet_get_object_def get_object_def)
qed

lemma task_get_object_absent:
  assumes "k \<notin> pk ` set (tasks db)"
  shows "TaskViewSet_get_object today a params db k = Inl Http404"
proof -
  have "set (TaskFilter_filter_queryset today params (TaskViewSet_get_queryset a db)) \<subseteq> set (tasks db)"
    using TaskFilter_subset [of today params "TaskViewSet_get_queryset a db"]
    by (auto simp: TaskViewSet_get_queryset_def)
  with assms have "find (\<lambda>obj. pk obj = k)
      (TaskFilter_filter_queryset today params (TaskViewSet_get_queryset a db)) = None"
    by (rule find_None_absent)
  then show ?thesis by (simp add: TaskViewSet_get_object_def get_object_def)
qed

lemma category_get_object_foreign:
  assumes "distinct (map pk (categories db))" and "c \<in> set (categories db)" and "user c \<noteq> a"
  shows "CategoryViewSet_get_object a db (pk c) = Inl Http404"
proof -
  have "find (\<lambda>obj. pk obj = pk c) (CategoryViewSet_get_queryset a db) = None"
    unfolding CategoryViewSet_get_queryset_def using assms by (rule find_None_filter_owner)
  then show ?thesis by (simp add: CategoryViewSet_get_object_def get_object_def)
qed

lemma category_get_object_absent:
  assumes "k \<notin> pk ` set (categories db)"
  shows "CategoryViewSet_get_object a db k = Inl Http404"
proof -
  have "find (\<lambda>obj. pk obj = k) (CategoryViewSet_get_queryset a db) = None"
    using assms by (auto simp: find_None_iff CategoryViewSet_get_queryset_def)
  then show ?thesis by (simp add: CategoryViewSet_get_object_def get_object_def)
qed

lemma task_views_Http404:
  assumes "TaskViewSet_get_object today a params db k = Inl Http404"
  shows "TaskViewSet_retrieve today a params db k = (Inl Http404, db)"
    and "TaskViewSet_partial_update today a params db k data = (Inl Http404, db)"
    and "TaskViewSet_destroy today a params db k = (Inl Http404, db)"
  using assms
  by (simp_all add: TaskViewSet_retrieve_def TaskViewSet_partial_update_def TaskViewSet_destroy_def)

lemma category_views_Http404:
  assumes "CategoryViewSet_get_object a db k = Inl Http404"
  shows "CategoryViewSet_retrieve a db k = (Inl Http404, db)"
    and "CategoryViewSet_partial_update a db k cdata = (Inl Http404, db)"
    and "CategoryViewSet_destroy a db k = (Inl Http404, db)"
  using assms
  by (simp_all add: CategoryViewSet_retrieve_def CategoryViewSet_partial_update_def
      CategoryViewSet_destroy_def)

lemma task_list_owner:
  "t \<in> set (TaskViewSet_list today a params db) \<Longrightarrow> user t = a"
  using TaskFilter_subset [of today params "TaskViewSet_get_queryset a db"]
  by (auto simp: TaskViewSet_list_def TaskViewSet_get_queryset_def)

lemma category_list_owner:
  "c \<in> fst ` set (CategoryViewSet_list a db) \<Longrightarrow> user c = a"
  by (auto simp: CategoryViewSet_list_def CategoryViewSet_get_queryset_def)

lemma without_task_absent: "k \<notin> pk ` set (tasks (without_task db k))"
  by (auto simp: without_task_def)

lemma without_category_absent: "k \<notin> pk ` set (categories (without_category db k))"
  by (auto simp: without_category_def)

text \<open>
  C3. Let \<open>a\<close> and \<open>b\<close> be distinct owners, with primary keys unique in each table.
  A task or category owned by \<open>b\<close> is in no list \<open>a\<close> obtains, and \<open>a\<close>'s
  retrieve, update and delete on its key answer not found (never forbidden) and leave
  the database as it is: the answer \<open>a\<close> gets on the database from which that row
  has been removed.
\<close>

theorem cross_owner_not_found:
  assumes "a \<noteq> b"
      and "distinct (map pk (tasks db))"
      and "distinct (map pk (categories db))"
  shows "(\<forall>t\<in>set (tasks db). user t = b \<longrightarrow>
            t \<notin> set (TaskViewSet_list today a params db)
          \<and> TaskViewSet_retrieve today a params db (pk t) = (Inl Http404, db)
          \<and> TaskViewSet_partial_update today a params db (pk t) data = (Inl Http404, db)
          \<and> TaskViewSet_destroy today a params db (pk t) = (Inl Http404, db)
          \<and> TaskViewSet_retrieve today a params (without_task db (pk t)) (pk t)
               = (Inl Http404, without_task db (pk t))
          \<and> TaskViewSet_partial_update today a params (without_task db (pk t)) (pk t) data
               = (Inl Http404, without_task db (pk t))
          \<and> TaskViewSet_destroy today a params (without_task db (pk t)) (pk t)
               = (Inl Http404, without_task db (pk t)))
       \<and> (\<forall>c\<in>set (categories db). user c = b \<longrightarrow>
            c \<notin> fst ` set (CategoryViewSet_list a db)
          \<and> CategoryViewSet_retrieve a db (pk c) = (Inl Http404, db)
          \<and> CategoryViewSet_partial_update a db (pk c) cdata = (Inl Http404, db)
          \<and> CategoryViewSet_destroy a db (pk c) = (Inl Http404, db)
          \<and> CategoryViewSet_retrieve a (without_category db (pk c)) (pk c)
               = (Inl Http404, without_category db (pk c))
          \<and> CategoryViewSet_partial_update a (without_category db (pk c)) (pk c) cdata
               = (Inl Http404, without_category db (pk c))
          \<and> CategoryViewSet_destroy a (without_category db (pk c)) (pk c)
               = (Inl Http404, without_category db (pk c)))"
proof (intro conjI ballI impI)
  fix t assume t: "t \<in> set (tasks db)" "user t = b"
  then have na: "user t \<noteq> a" using assms(1) by simp
  show "t \<notin> set (TaskViewSet_list today a params db)"
    using task_list_owner na by blast
  note g = task_get_object_foreign [OF assms(2) t(1) na, of today params]
  show "TaskViewSet_retrieve today a params db (pk t) = (Inl Http404, db)"
    by (rule task_views_Http404(1) [OF g])
  show "TaskViewSet_partial_update today a params db (pk t) data = (Inl Http404, db)"
    by (rule task_views_Http404(2) [OF g])
  show "TaskViewSet_destroy today a params db (pk t) = (Inl Http404, db)"
    by (rule task_views_Http404(3) [OF g])
  note h = task_get_object_absent [OF without_task_absent, of today a params db "pk t"]
  show "TaskViewSet_retrieve today a params (without_task db (pk t)) (pk t)
      = (Inl Http404, without_task db (pk t))"
    by (rule task_views_Http404(1) [OF h])
  show "TaskViewSet_partial_update today a params (without_task db (pk t)) (pk t) data
      = (Inl Http404, without_task db (pk t))"
    by (rule task_views_Http404(2) [OF h])
  show "TaskViewSet_destroy today a params (without_task db (pk t)) (pk t)
      = (Inl Http404, without_task db (pk t))"
    by (rule task_views_Http404(3) [OF h])
next
  fix c assume c: "c \<in> set (categories db)" "user c = b"
  then have na: "user c \<noteq> a" using assms(1) by simp
  show "c \<notin> fst ` set (CategoryViewSet_list a db)"
    using category_list_owner na by blast
  note g = category_get_object_foreign [OF assms(3) c(1) na]
  show "CategoryViewSet_retrieve a db (pk c) = (Inl Http404, db)"
    by (rule category_views_Http404(1) [OF g])
  show "CategoryViewSet_partial_update a db (pk c) cdata = (Inl Http404, db)"
    by (rule category_views_Http404(2) [OF g])
  show "CategoryViewSet_destroy a db (pk c) = (Inl Http404, db)"
    by (rule category_views_Http404(3) [OF g])
  note h = category_get_object_absent [OF without_category_absent, of a db "pk c"]
  show "CategoryViewSet_retrieve a (without_category db (pk c)) (pk c)
      = (Inl Http404, without_category db (pk c))"
    by (rule category_views_Http404(1) [OF h])
  show "CategoryViewSet_partial_update a (without_category db (pk c)) (pk c) cdata
      = (Inl Http404, without_category db (pk c))"
    by (rule category_views_Http404(2) [OF h])
  show "CategoryViewSet_destroy a (without_category db (pk c)) (pk c)
      = (Inl Http404, without_category db (pk c))"
    by (rule category_views_Http404(3) [OF h])
qed

theorem cross_owner_not_found_witness:
  "(2::nat) \<noteq> 1
   \<and> distinct (map pk (tasks sample_db)) \<and> distinct (map pk (categories sample_db))
   \<and> sample_task \<in> set (tasks sample_db) \<and> user sample_task = 1 \<and> pk sample_task = 7
   \<and> sample_category \<in> set (categories sample_db) \<and> user sample_category = 1 \<and> pk sample_category = 3
   \<and> sample_task \<notin> set (TaskViewSet_list 100 2 no_params sample_db)
   \<and> TaskViewSet_retrieve 100 2 no_params sample_db 7 = (Inl Http404, sample_db)
   \<and> TaskViewSet_partial_update 100 2 no_params sample_db 7 (no_data\<lparr>d_title := Some ''Hacked''\<rparr>)
        = (Inl Http404, sample_db)
   \<and> TaskViewSet_destroy 100 2 no_params sample_db 7 = (Inl Http404, sample_db)
   \<and> sample_category \<notin> fst ` set (CategoryViewSet_list 2 sample_db)
   \<and> CategoryViewSet_retrieve 2 sample_db 3 = (Inl Http404, sample_db)
   \<and> CategoryViewSet_partial_update 2 sample_db 3 \<lparr>d_name = Some ''Mine'', d_colour = None\<rparr>
        = (Inl Http404, sample_db)
   \<and> CategoryViewSet_destroy 2 sample_db 3 = (Inl Http404, sample_db)"
proof -
  have h: "(2::nat) \<noteq> 1" "distinct (map pk (tasks sample_db))" "distinct (map pk (categories sample_db))"
    by (simp_all add: sample_db_def)
  have m: "sample_task \<in> set (tasks sample_db)" "user sample_task = 1" "pk sample_task = 7"
    "sample_category \<in> set (categories sample_db)" "user sample_category = 1" "pk sample_category = 3"
    by (simp_all add: sample_db_def sample_task_def sample_category_def)
  note th = cross_owner_not_found [OF h, where today = 100 and params = no_params
      and data = "no_data\<lparr>d_title := Some ''Hacked''\<rparr>"
      and cdata = "\<lparr>d_name = Some ''Mine'', d_colour = None\<rparr>"]
  from th have "user sample_task = 1 \<longrightarrow>
        sample_task \<notin> set (TaskViewSet_list 100 2 no_params sample_db)
      \<and> TaskViewSet_retrieve 100 2 no_params sample_db (pk sample_task) = (Inl Http404, sample_db)
      \<and> TaskViewSet_partial_update 100 2 no_params sample_db (pk sample_task)
           (no_data\<lparr>d_title := Some ''Hacked''\<rparr>) = (Inl Http404, sample_db)
      \<and> TaskViewSet_destroy 100 2 no_params sample_db (pk sample_task) = (Inl Http404, sample_db)"
    using m(1) by blast
  moreover from th have "user sample_category = 1 \<longrightarrow>
        sample_category \<notin> fst ` set (CategoryViewSet_list 2 sample_db)
      \<and> CategoryViewSet_retrieve 2 sample_db (pk sample_category) = (Inl Http404, sample_db)
      \<and> CategoryViewSet_partial_update 2 sample_db (pk sample_category)
           \<lparr>d_name = Some ''Mine'', d_colour = None\<rparr> = (Inl Http404, sample_db)
      \<and> CategoryViewSet_destroy 2 sample_db (pk sample_category) = (Inl Http404, sample_db)"
    using m(4) by blast
  ultimately show ?thesis using h m by simp
qed

subsection \<open>Overdue tasks\<close>

lemma is_overdue_iff:
  "is_overdue today t \<longleftrightarrow> (\<exists>d. due_date t = Some d \<and> d < today) \<and> status t \<noteq> DONE"
  by (auto simp: is_overdue_def split: option.splits)

lemma validate_Inr: "validate instance attrs = Inr a \<Longrightarrow> a = attrs"
  by (auto simp: validate_def split: option.splits if_splits)

lemma partial_update_Inr:
  assumes "TaskViewSet_partial_update today u params db k data = (Inr t', db')"
      and "TaskViewSet_get_object today u params db k = Inr inst"
  shows "\<exists>attrs. TaskSerializer_to_internal_value today (Some u) (categories db) (Some inst) True data
             = Inr attrs
           \<and> validate (Some inst) attrs = Inr attrs \<and> t' = update_task inst attrs"
  using assms
  by (auto simp: TaskViewSet_partial_update_def TaskSerializer_run_validation_def Let_def
      split: sum.splits dest: validate_Inr)

text \<open>
  C4. \<open>is_overdue\<close> holds exactly when a due date is set, it is strictly before the
  current date, and the status is not \<open>done\<close>. An accepted update whose body sets
  the status to \<open>done\<close> and has no due date leaves the due date as it was, and the
  updated task is not overdue.
\<close>

theorem is_overdue_characterised:
  "(is_overdue today t \<longleftrightarrow> (\<exists>d. due_date t = Some d \<and> d < today) \<and> status t \<noteq> DONE)
   \<and> (TaskViewSet_partial_update today' u params db k data = (Inr t', db')
        \<and> TaskViewSet_get_object today' u params db k = Inr inst
        \<and> d_status data = Some ''done'' \<and> d_due_date data = None
      \<longrightarrow> status t' = DONE \<and> due_date t' = due_date inst \<and> \<not> is_overdue today t')"
proof -
  have 1: "is_overdue today t \<longleftrightarrow> (\<exists>d. due_date t = Some d \<and> d < today) \<and> status t \<noteq> DONE"
    by (rule is_overdue_iff)
  have 2: "status t' = DONE \<and> due_date t' = due_date inst \<and> \<not> is_overdue today t'"
    if h: "TaskViewSet_partial_update today' u params db k data = (Inr t', db')
        \<and> TaskViewSet_get_object today' u params db k = Inr inst
        \<and> d_status data = Some ''done'' \<and> d_due_date data = None"
  proof -
    from h obtain attrs where
      a: "TaskSerializer_to_internal_value today' (Some u) (categories db) (Some inst) True data = Inr attrs"
      and t: "t' = update_task inst attrs"
      using partial_update_Inr by blast
    from to_internal_value_Inr(3) [OF a] h obtain s where
      s: "a_status attrs = Some s" "choice_field status_value Status ''done'' = Inr s"
      using run_field_present by metis
    from choice_field_status [OF s(2)] have "s = DONE" by (cases s) simp_all
    moreover from to_internal_value_Inr(5) [OF a] h have "a_due_date attrs = None"
      by (simp add: run_field_def)
    ultimately have "status t' = DONE" "due_date t' = due_date inst"
      using s(1) t by (simp_all add: update_task_def)
    then show ?thesis by (simp add: is_overdue_iff)
  qed
  show ?thesis using 1 2 by blast
qed

theorem is_overdue_characterised_witness:
  "TaskViewSet_get_object 100 1 no_params
       \<lparr>categories = [], tasks = [sample_task\<lparr>status := IN_PROGRESS, due_date := Some 90\<rparr>]\<rparr> 7
     = Inr (sample_task\<lparr>status := IN_PROGRESS, due_date := Some 90\<rparr>)
   \<and> TaskViewSet_partial_update 100 1 no_params
       \<lparr>categories = [], tasks = [sample_task\<lparr>status := IN_PROGRESS, due_date := Some 90\<rparr>]\<rparr> 7
       (no_data\<lparr>d_status := Some ''done''\<rparr>)
     = (Inr (sample_task\<lparr>status := DONE, due_date := Some 90\<rparr>),
        \<lparr>categories = [], tasks = [sample_task\<lparr>status := DONE, due_date := Some 90\<rparr>]\<rparr>)
   \<and> is_overdue 100 (sample_task\<lparr>status := IN_PROGRESS, due_date := Some 90\<rparr>)
   \<and> \<not> is_overdue 100 (sample_task\<lparr>status := DONE, due_date := Some 90\<rparr>)
   \<and> due_date (sample_task\<lparr>status := DONE, due_date := Some 90\<rparr>) = Some 90"
proof -
  let ?i = "sample_task\<lparr>status := IN_PROGRESS, due_date := Some 90\<rparr>"
  let ?db = "\<lparr>categories = [], tasks = [?i]\<rparr>"
  have g: "TaskViewSet_get_object 100 1 no_params ?db 7 = Inr ?i"
    by (simp add: TaskViewSet_get_object_def TaskViewSet_get_queryset_def get_object_def
        has_object_permission_def sample_task_def)
  have f: "TaskSerializer_to_internal_value 100 (Some 1) [] (Some ?i) True
      (no_data\<lparr>d_status := Some ''done''\<rparr>)
      = Inr \<lparr>a_title = None, a_description = None, a_status = Some DONE, a_priority = None,
            a_due_date = None, a_category = None\<rparr>"
    using status_only_fields [of 100 "Some 1" "[]" "Some ?i" DONE] by simp
  have p: "TaskViewSet_partial_update 100 1 no_params ?db 7 (no_data\<lparr>d_status := Some ''done''\<rparr>)
     = (Inr (sample_task\<lparr>status := DONE, due_date := Some 90\<rparr>),
        \<lparr>categories = [], tasks = [sample_task\<lparr>status := DONE, due_date := Some 90\<rparr>]\<rparr>)"
    using g f
    by (simp add: TaskViewSet_partial_update_def TaskSerializer_run_validation_def validate_def
        update_task_def Let_def sample_task_def)
  have d: "d_status (no_data\<lparr>d_status := Some ''done''\<rparr>) = Some ''done''"
    "d_due_date (no_data\<lparr>d_status := Some ''done''\<rparr>) = None"
    by (simp_all add: no_data_def)
  have o: "is_overdue 100 ?i"
    using is_overdue_characterised [of 100 ?i] by (simp add: sample_task_def)
  from is_overdue_characterised [of 100 ?i 100 1 no_params ?db 7 "no_data\<lparr>d_status := Some ''done''\<rparr>"
      "sample_task\<lparr>status := DONE, due_date := Some 90\<rparr>"
      "\<lparr>categories = [], tasks = [sample_task\<lparr>status := DONE, due_date := Some 90\<rparr>]\<rparr>" ?i]
  have "\<not> is_overdue 100 (sample_task\<lparr>status := DONE, due_date := Some 90\<rparr>)
      \<and> due_date (sample_task\<lparr>status := DONE, due_date := Some 90\<rparr>) = due_date ?i"
    using p g d by blast
  then show ?thesis using g p o by simp
qed

lemma overdue_q_matches:
  "q_matches (Q_and (Due_date_lt today) (Q_not (Status_eq DONE))) = is_overdue today"
  by (rule ext) (auto simp: is_overdue_def split: option.splits)

lemma filter_overdue_eq:
  "filter_overdue today qs v = filter (\<lambda>t. is_overdue today t = v) qs"
  by (cases v) (simp_all add: filter_overdue_def Let_def qs_filter_def qs_exclude_def
      overdue_q_matches del: q_matches.simps)

lemma list_overdue_only:
  "TaskViewSet_list today u (no_params\<lparr>p_overdue := Some v\<rparr>) db
     = filter_overdue today (TaskViewSet_get_queryset u db) v"
  by (simp add: TaskViewSet_list_def TaskFilter_filter_queryset_def no_params_def
      lookup_filter_def boolean_filter_def char_filter_def)

text \<open>
  C5. On an owner's tasks, \<open>overdue=true\<close> returns exactly the tasks with a due date
  before today and a status other than \<open>done\<close>; \<open>overdue=false\<close> returns exactly
  the other tasks of the owner, those without a due date among them. The two results are
  disjoint and together are the owner's tasks.
\<close>

theorem overdue_filter_partition:
  "TaskViewSet_list today u (no_params\<lparr>p_overdue := Some True\<rparr>) db
     = filter (\<lambda>t. (\<exists>d. due_date t = Some d \<and> d < today) \<and> status t \<noteq> DONE)
         (TaskViewSet_get_queryset u db)
   \<and> TaskViewSet_list today u (no_params\<lparr>p_overdue := Some False\<rparr>) db
     = filter (\<lambda>t. \<not> ((\<exists>d. due_date t = Some d \<and> d < today) \<and> status t \<noteq> DONE))
         (TaskViewSet_get_queryset u db)
   \<and> set (TaskViewSet_list today u (no_params\<lparr>p_overdue := Some False\<rparr>) db)
     = set (TaskViewSet_get_queryset u db)
         - set (TaskViewSet_list today u (no_params\<lparr>p_overdue := Some True\<rparr>) db)
   \<and> set (TaskViewSet_list today u (no_params\<lparr>p_overdue := Some True\<rparr>) db)
       \<union> set (TaskViewSet_list today u (no_params\<lparr>p_overdue := Some False\<rparr>) db)
     = set (TaskViewSet_get_queryset u db)
   \<and> set (TaskViewSet_list today u (no_params\<lparr>p_overdue := Some True\<rparr>) db)
       \<inter> set (TaskViewSet_list today u (no_params\<lparr>p_overdue := Some False\<rparr>) db)
     = {}
   \<and> length (TaskViewSet_list today u (no_params\<lparr>p_overdue := Some True\<rparr>) db)
       + length (TaskViewSet_list today u (no_params\<lparr>p_overdue := Some False\<rparr>) db)
     = length (TaskViewSet_get_queryset u db)
   \<and> (\<forall>qs. filter_overdue today qs True
             = filter (\<lambda>t. (\<exists>d. due_date t = Some d \<and> d < today) \<and> status t \<noteq> DONE) qs
          \<and> filter_overdue today qs False
             = filter (\<lambda>t. \<not> ((\<exists>d. due_date t = Some d \<and> d < today) \<and> status t \<noteq> DONE)) qs)"
proof -
  let ?qs = "TaskViewSet_get_queryset u db"
  let ?P = "\<lambda>t. (\<exists>d. due_date t = Some d \<and> d < today) \<and> status t \<noteq> DONE"
  have P: "is_overdue today = ?P" by (rule ext) (rule is_overdue_iff)
  have T: "\<And>qs. filter_overdue today qs True = filter ?P qs"
    by (simp add: filter_overdue_eq P)
  have F: "\<And>qs. filter_overdue today qs False = filter (\<lambda>t. \<not> ?P t) qs"
    by (simp add: filter_overdue_eq P)
  have len: "length (filter ?P ?qs) + length (filter (\<lambda>t. \<not> ?P t) ?qs) = length ?qs"
    by (rule sum_length_filter_compl)
  have s1: "set (filter (\<lambda>t. \<not> ?P t) ?qs) = set ?qs - set (filter ?P ?qs)" by auto
  have s2: "set (filter ?P ?qs) \<union> set (filter (\<lambda>t. \<not> ?P t) ?qs) = set ?qs" by auto
  have s3: "set (filter ?P ?qs) \<inter> set (filter (\<lambda>t. \<not> ?P t) ?qs) = {}" by auto
  show ?thesis
    unfolding list_overdue_only T F using len s1 s2 s3 by blast
qed

theorem overdue_filter_partition_witness:
  "TaskViewSet_list 100 1 (no_params\<lparr>p_overdue := Some True\<rparr>)
      \<lparr>categories = [],
       tasks = [sample_task, sample_task\<lparr>pk := 8, due_date := Some 90\<rparr>,
                sample_task\<lparr>pk := 9, status := DONE, due_date := Some 90\<rparr>]\<rparr>
     = [sample_task\<lparr>pk := 8, due_date := Some 90\<rparr>]
   \<and> TaskViewSet_list 100 1 (no_params\<lparr>p_overdue := Some False\<rparr>)
      \<lparr>categories = [],
       tasks = [sample_task, sample_task\<lparr>pk := 8, due_date := Some 90\<rparr>,
                sample_task\<lparr>pk := 9, status := DONE, due_date := Some 90\<rparr>]\<rparr>
     = [sample_task, sample_task\<lparr>pk := 9, status := DONE, due_date := Some 90\<rparr>]"
proof -
  let ?db = "\<lparr>categories = [],
       tasks = [sample_task, sample_task\<lparr>pk := 8, due_date := Some 90\<rparr>,
                sample_task\<lparr>pk := 9, status := DONE, due_date := Some 90\<rparr>]\<rparr>"
  have q: "TaskViewSet_get_queryset 1 ?db = tasks ?db"
    by (simp add: TaskViewSet_get_queryset_def sample_task_def)
  note th = overdue_filter_partition [of 100 1 ?db]
  from th have "TaskViewSet_list 100 1 (no_params\<lparr>p_overdue := Some True\<rparr>) ?db
     = filter (\<lambda>t. (\<exists>d. due_date t = Some d \<and> d < 100) \<and> status t \<noteq> DONE)
         (TaskViewSet_get_queryset 1 ?db)"
    by (rule conjunct1)
  moreover from th have "TaskViewSet_list 100 1 (no_params\<lparr>p_overdue := Some False\<rparr>) ?db
     = filter (\<lambda>t. \<not> ((\<exists>d. due_date t = Some d \<and> d < 100) \<and> status t \<noteq> DONE))
         (TaskViewSet_get_queryset 1 ?db)"
    by (rule conjunct1 [OF conjunct2])
  ultimately show ?thesis unfolding q by (simp add: sample_task_def)
qed

subsection \<open>Category names\<close>

lemma iexact_refl [simp]: "iexact a a"
  by (simp add: iexact_def)

lemma validate_name_create:
  "validate_name (Some u) cats None v =
     (if \<exists>c\<in>set cats. user c = u \<and> iexact (name c) v
      then Inl (Invalid ''You already have a category with this name.'') else Inr v)"
  by (auto simp: validate_name_def Let_def filter_empty_conv)

lemma validate_name_update:
  "validate_name (Some u) cats (Some inst) v =
     (if \<exists>c\<in>set cats. user c = u \<and> iexact (name c) v \<and> pk c \<noteq> pk inst
      then Inl (Invalid ''You already have a category with this name.'') else Inr v)"
  by (auto simp: validate_name_def Let_def filter_empty_conv)


text \<open>
  At the views, with a well-formed name (not blank, at most 100 characters, no
  surrounding whitespace): a PATCH that resubmits the category's own name is accepted
  when no other category of the owner has it, and a creation is accepted when the owner
  has no category of that name, whoever else has one.
\<close>

lemma category_patch_own_name:
  assumes g: "CategoryViewSet_get_object u db k = Inr inst"
      and wf: "char_field (Some 100) False (name inst) = Inr (name inst)"
      and inv: "\<forall>c\<in>set (categories db). user c = u \<and> iexact (name c) (name inst) \<longrightarrow> pk c = pk inst"
  shows "CategoryViewSet_partial_update u db k \<lparr>d_name = Some (name inst), d_colour = None\<rparr>
     = (Inr inst, db\<lparr>categories := map (\<lambda>r. if pk r = pk inst then inst else r) (categories db)\<rparr>)"
proof -
  from g have ui: "user inst = u"
    unfolding CategoryViewSet_get_object_def by (auto dest: get_object_Inr)
  have v: "validate_name (Some u) (categories db) (Some inst) (name inst) = Inr (name inst)"
    using inv by (auto simp: validate_name_update)
  have r: "CategorySerializer_run_validation (Some u) (categories db) (Some inst) True
      \<lparr>d_name = Some (name inst), d_colour = None\<rparr> = Inr \<lparr>a_name = Some (name inst), a_colour = None\<rparr>"
    using wf v by (simp add: CategorySerializer_run_validation_def run_field_def name_field_def)
  have upd: "update_category inst \<lparr>a_name = Some (name inst), a_colour = None\<rparr> = inst"
    by (simp add: update_category_def)
  have uq: "unique_category_per_user (categories db) inst"
    using inv ui by (auto simp: unique_category_per_user_def filter_empty_conv)
  show ?thesis
    using g r upd uq by (simp add: CategoryViewSet_partial_update_def Let_def)
qed

lemma category_create_other_owner:
  assumes wf: "char_field (Some 100) False n = Inr n"
      and free: "\<forall>c\<in>set (categories db). iexact (name c) n \<longrightarrow> user c \<noteq> u"
  shows "CategoryViewSet_create u new_pk db \<lparr>d_name = Some n, d_colour = None\<rparr>
     = (Inr \<lparr>pk = new_pk, user = u, name = n, colour = ''#6366f1''\<rparr>,
        db\<lparr>categories := categories db @ [\<lparr>pk = new_pk, user = u, name = n, colour = ''#6366f1''\<rparr>]\<rparr>)"
proof -
  have v: "validate_name (Some u) (categories db) None n = Inr n"
    using free by (auto simp: validate_name_create)
  have r: "CategorySerializer_run_validation (Some u) (categories db) None False
      \<lparr>d_name = Some n, d_colour = None\<rparr> = Inr \<lparr>a_name = Some n, a_colour = None\<rparr>"
    using wf v by (simp add: CategorySerializer_run_validation_def run_field_def name_field_def)
  have uq: "unique_category_per_user (categories db)
      \<lparr>pk = new_pk, user = u, name = n, colour = ''#6366f1''\<rparr>"
    using free by (auto simp: unique_category_per_user_def filter_empty_conv)
  show ?thesis
    using r uq by (simp add: CategoryViewSet_create_def create_category_def Let_def)
qed




subsection \<open>Due dates\<close>










text \<open>Editing the title of a stored overdue task is accepted and keeps its past due date.\<close>

lemma edit_overdue_task_accepted:
  "TaskViewSet_partial_update 100 1 no_params
       \<lparr>categories = [], tasks = [sample_task\<lparr>due_date := Some 90\<rparr>]\<rparr> 7
       (no_data\<lparr>d_title := Some ''Edited''\<rparr>)
     = (Inr (sample_task\<lparr>title := ''Edited'', due_date := Some 90\<rparr>),
        \<lparr>categories = [], tasks = [sample_task\<lparr>title := ''Edited'', due_date := Some 90\<rparr>]\<rparr>)
   \<and> is_overdue 100 (sample_task\<lparr>due_date := Some 90\<rparr>)"
  by (simp add: TaskViewSet_partial_update_def TaskViewSet_get_object_def TaskViewSet_get_queryset_def
      get_object_def has_object_permission_def TaskSerializer_run_validation_def
      TaskSerializer_to_internal_value_def run_field_def char_field_def strip_def isspace_def
      validate_def update_task_def no_data_def sample_task_def is_overdue_def Let_def)

subsection \<open>Statistics\<close>

lemma map_of_tabulate:
  "map_of (map (\<lambda>k. (k, f k)) ks) k = (if k \<in> set ks then Some (f k) else None)"
  by (induction ks) auto

lemma dict_get_group_count:
  "dict_get (group_count col qs) k 0 = length (filter (\<lambda>t. col t = k) qs)"
proof (cases "k \<in> col ` set qs")
  case True
  then show ?thesis by (simp add: dict_get_def group_count_def map_of_tabulate)
next
  case False
  then have "filter (\<lambda>t. col t = k) qs = []" by (auto simp: filter_empty_conv)
  with False show ?thesis by (simp add: dict_get_def group_count_def map_of_tabulate)
qed

lemma status_value_inj [simp]: "status_value a = status_value b \<longleftrightarrow> a = b"
  by (cases a; cases b; simp)

lemma priority_value_inj [simp]: "priority_value a = priority_value b \<longleftrightarrow> a = b"
  by (cases a; cases b; simp)

lemma stats_by_status:
  "by_status (stats today u db)
     = map (\<lambda>s. (status_value s, length (filter (\<lambda>t. status t = s) (TaskViewSet_get_queryset u db))))
         Status"
  by (simp add: stats_def Let_def dict_get_group_count)

lemma stats_by_priority:
  "by_priority (stats today u db)
     = map (\<lambda>p. (priority_value p, length (filter (\<lambda>t. priority t = p) (TaskViewSet_get_queryset u db))))
         Priority"
  by (simp add: stats_def Let_def dict_get_group_count)

lemma stats_overdue:
  "overdue (stats today u db) = length (filter_overdue today (TaskViewSet_get_queryset u db) True)"
proof -
  have "qs_exclude (Status_eq DONE) (qs_filter (Due_date_lt today) qs)
      = qs_filter (Q_and (Due_date_lt today) (Q_not (Status_eq DONE))) qs" for qs
    unfolding qs_exclude_def qs_filter_def filter_filter
    by (rule filter_cong) auto
  then show ?thesis by (simp add: stats_def Let_def filter_overdue_def)
qed

lemma map_of_by_status:
  "map_of (by_status (stats today u db)) (status_value s)
     = Some (length (filter (\<lambda>t. status t = s) (TaskViewSet_get_queryset u db)))"
  by (cases s) (simp_all add: stats_by_status Status_def)

lemma map_of_by_priority:
  "map_of (by_priority (stats today u db)) (priority_value p)
     = Some (length (filter (\<lambda>t. priority t = p) (TaskViewSet_get_queryset u db)))"
  by (cases p) (simp_all add: stats_by_priority Priority_def)

text \<open>
  C8. For the owner's tasks, the statistics have all three status keys and all four
  priority keys, each with the number of the owner's tasks of that status or priority
  (zero when there is none); the overdue count is the number of tasks the list filter
  \<open>overdue=true\<close> returns; the total is the number of the owner's tasks. When the
  owner has no task, the total and the overdue count are zero and every key has zero.
\<close>

theorem stats_zero_filled:
  "map fst (by_status (stats today u db)) = [''todo'', ''in_progress'', ''done'']
   \<and> map fst (by_priority (stats today u db)) = [''low'', ''medium'', ''high'', ''urgent'']
   \<and> (\<forall>s. map_of (by_status (stats today u db)) (status_value s)
            = Some (length (filter (\<lambda>t. status t = s) (TaskViewSet_get_queryset u db))))
   \<and> (\<forall>p. map_of (by_priority (stats today u db)) (priority_value p)
            = Some (length (filter (\<lambda>t. priority t = p) (TaskViewSet_get_queryset u db))))
   \<and> total (stats today u db) = length (TaskViewSet_get_queryset u db)
   \<and> overdue (stats today u db) = length (filter_overdue today (TaskViewSet_get_queryset u db) True)
   \<and> overdue (stats today u db)
        = length (TaskViewSet_list today u (no_params\<lparr>p_overdue := Some True\<rparr>) db)
   \<and> (TaskViewSet_get_queryset u db = [] \<longrightarrow>
        stats today u db
          = \<lparr>total = 0,
             by_status = [(''todo'', 0), (''in_progress'', 0), (''done'', 0)],
             by_priority = [(''low'', 0), (''medium'', 0), (''high'', 0), (''urgent'', 0)],
             overdue = 0\<rparr>)"
proof -
  have 1: "map fst (by_status (stats today u db)) = [''todo'', ''in_progress'', ''done'']"
    by (simp add: stats_by_status Status_def)
  have 2: "map fst (by_priority (stats today u db)) = [''low'', ''medium'', ''high'', ''urgent'']"
    by (simp add: stats_by_priority Priority_def)
  have 5: "total (stats today u db) = length (TaskViewSet_get_queryset u db)"
    by (simp add: stats_def Let_def)
  have 8: "stats today u db
          = \<lparr>total = 0,
             by_status = [(''todo'', 0), (''in_progress'', 0), (''done'', 0)],
             by_priority = [(''low'', 0), (''medium'', 0), (''high'', 0), (''urgent'', 0)],
             overdue = 0\<rparr>"
    if "TaskViewSet_get_queryset u db = []"
    using that
    by (simp add: stats_def Let_def group_count_def dict_get_def Status_def Priority_def
        qs_filter_def qs_exclude_def)
  show ?thesis
    using 1 2 5 8 map_of_by_status [of today u db] map_of_by_priority [of today u db]
      stats_overdue [of today u db] list_overdue_only [of today u True db]
    by simp
qed

theorem stats_zero_filled_witness:
  "TaskViewSet_get_queryset 2 sample_db = []
   \<and> stats 100 2 sample_db
        = \<lparr>total = 0,
           by_status = [(''todo'', 0), (''in_progress'', 0), (''done'', 0)],
           by_priority = [(''low'', 0), (''medium'', 0), (''high'', 0), (''urgent'', 0)],
           overdue = 0\<rparr>
   \<and> map_of (by_status (stats 100 1 sample_db)) ''todo'' = Some 1
   \<and> map_of (by_status (stats 100 1 sample_db)) ''done'' = Some 0
   \<and> total (stats 100 1 sample_db) = 1"
proof -
  have e: "TaskViewSet_get_queryset 2 sample_db = []"
    by (simp add: TaskViewSet_get_queryset_def sample_db_def sample_task_def)
  have q: "TaskViewSet_get_queryset 1 sample_db = [sample_task]"
    by (simp add: TaskViewSet_get_queryset_def sample_db_def sample_task_def)
  have a: "stats 100 2 sample_db
        = \<lparr>total = 0,
           by_status = [(''todo'', 0), (''in_progress'', 0), (''done'', 0)],
           by_priority = [(''low'', 0), (''medium'', 0), (''high'', 0), (''urgent'', 0)],
           overdue = 0\<rparr>"
    using stats_zero_filled [of 100 2 sample_db] e by blast
  note th = stats_zero_filled [of 100 1 sample_db]
  from th have "map_of (by_status (stats 100 1 sample_db)) (status_value TODO)
      = Some (length (filter (\<lambda>t. status t = TODO) (TaskViewSet_get_queryset 1 sample_db)))"
    by blast
  then have b: "map_of (by_status (stats 100 1 sample_db)) ''todo'' = Some 1"
    unfolding q by (simp add: sample_task_def)
  from th have "map_of (by_status (stats 100 1 sample_db)) (status_value DONE)
      = Some (length (filter (\<lambda>t. status t = DONE) (TaskViewSet_get_queryset 1 sample_db)))"
    by blast
  then have c: "map_of (by_status (stats 100 1 sample_db)) ''done'' = Some 0"
    unfolding q by (simp add: sample_task_def)
  from th have "total (stats 100 1 sample_db) = length (TaskViewSet_get_queryset 1 sample_db)"
    by blast
  then have d: "total (stats 100 1 sample_db) = 1" unfolding q by simp
  show ?thesis using e a b c d by blast
qed

subsection \<open>Password reset request\<close>

text \<open>
  C9. Two password-reset requests whose email values pass the serializer get the same
  response: status 200 and the same body, whether or not an active account has the
  email. (The requests differ only in the mails handed off.)
\<close>

theorem password_reset_same_response:
  assumes "PasswordResetRequestSerializer_run_validation valid_email d1 = Inr e1"
      and "PasswordResetRequestSerializer_run_validation valid_email d2 = Inr e2"
  shows "fst (post conf valid_email urlsafe_uid make_token sendgrid users d1)
           = fst (post conf valid_email urlsafe_uid make_token sendgrid users d2)
         \<and> fst (post conf valid_email urlsafe_uid make_token sendgrid users d1)
           = (200, Data [(''detail'', ''If an account with that email exists, a reset link has been sent.'')])"
  using assms by (simp add: post_def Let_def split: option.splits)

lemma sample_emails:
  "PasswordResetRequestSerializer_run_validation (\<lambda>s. CHR ''@'' \<in> set s) (Some ''Alice@Example.com'')
     = Inr ''alice@example.com''"
  "PasswordResetRequestSerializer_run_validation (\<lambda>s. CHR ''@'' \<in> set s) (Some ''nobody@example.com'')
     = Inr ''nobody@example.com''"
  by code_simp+

theorem password_reset_same_response_witness:
  "PasswordResetRequestSerializer_run_validation (\<lambda>s. CHR ''@'' \<in> set s) (Some ''Alice@Example.com'')
     = Inr ''alice@example.com''
   \<and> PasswordResetRequestSerializer_run_validation (\<lambda>s. CHR ''@'' \<in> set s) (Some ''nobody@example.com'')
     = Inr ''nobody@example.com''
   \<and> find (\<lambda>u. email u = ''alice@example.com'' \<and> is_active u) [sample_account] = Some sample_account
   \<and> find (\<lambda>u. email u = ''nobody@example.com'' \<and> is_active u) [sample_account] = None
   \<and> fst (post sample_settings (\<lambda>s. CHR ''@'' \<in> set s) (\<lambda>k. ''MQ'') (\<lambda>u. ''tok'') (\<lambda>m. True)
            [sample_account] (Some ''Alice@Example.com''))
     = fst (post sample_settings (\<lambda>s. CHR ''@'' \<in> set s) (\<lambda>k. ''MQ'') (\<lambda>u. ''tok'') (\<lambda>m. True)
            [sample_account] (Some ''nobody@example.com''))
   \<and> fst (post sample_settings (\<lambda>s. CHR ''@'' \<in> set s) (\<lambda>k. ''MQ'') (\<lambda>u. ''tok'') (\<lambda>m. True)
            [sample_account] (Some ''nobody@example.com''))
     = (200, Data [(''detail'', ''If an account with that email exists, a reset link has been sent.'')])
   \<and> snd (post sample_settings (\<lambda>s. CHR ''@'' \<in> set s) (\<lambda>k. ''MQ'') (\<lambda>u. ''tok'') (\<lambda>m. True)
            [sample_account] (Some ''Alice@Example.com''))
     = [\<lparr>to_email = ''alice@example.com'', display_name = ''alice'',
         link = ''http://localhost:5173/password-reset/confirm?uid=MQ&token=tok''\<rparr>]
   \<and> snd (post sample_settings (\<lambda>s. CHR ''@'' \<in> set s) (\<lambda>k. ''MQ'') (\<lambda>u. ''tok'') (\<lambda>m. True)
            [sample_account] (Some ''nobody@example.com''))
     = []"
proof -
  note th = password_reset_same_response [OF sample_emails(1) sample_emails(2),
      of sample_settings "\<lambda>k. ''MQ''" "\<lambda>u. ''tok''" "\<lambda>m. True" "[sample_account]"]
  have f: "find (\<lambda>u. email u = ''alice@example.com'' \<and> is_active u) [sample_account] = Some sample_account"
    "find (\<lambda>u. email u = ''nobody@example.com'' \<and> is_active u) [sample_account] = None"
    by (simp_all add: sample_account_def)
  have s1: "snd (post sample_settings (\<lambda>s. CHR ''@'' \<in> set s) (\<lambda>k. ''MQ'') (\<lambda>u. ''tok'') (\<lambda>m. True)
            [sample_account] (Some ''Alice@Example.com''))
     = [\<lparr>to_email = ''alice@example.com'', display_name = ''alice'',
         link = ''http://localhost:5173/password-reset/confirm?uid=MQ&token=tok''\<rparr>]"
    using f(1)
    by (simp add: post_def sample_emails Let_def send_password_reset_email_def send_email_def
        sample_settings_def) (simp add: sample_account_def)
  have s2: "snd (post sample_settings (\<lambda>s. CHR ''@'' \<in> set s) (\<lambda>k. ''MQ'') (\<lambda>u. ''tok'') (\<lambda>m. True)
            [sample_account] (Some ''nobody@example.com'')) = []"
    using f(2) by (simp add: post_def sample_emails Let_def)
  from th have r1: "fst (post sample_settings (\<lambda>s. CHR ''@'' \<in> set s) (\<lambda>k. ''MQ'') (\<lambda>u. ''tok'') (\<lambda>m. True)
            [sample_account] (Some ''Alice@Example.com''))
     = fst (post sample_settings (\<lambda>s. CHR ''@'' \<in> set s) (\<lambda>k. ''MQ'') (\<lambda>u. ''tok'') (\<lambda>m. True)
            [sample_account] (Some ''nobody@example.com''))"
    by (rule conjunct1)
  from th have r2: "fst (post sample_settings (\<lambda>s. CHR ''@'' \<in> set s) (\<lambda>k. ''MQ'') (\<lambda>u. ''tok'') (\<lambda>m. True)
            [sample_account] (Some ''nobody@example.com''))
     = (200, Data [(''detail'', ''If an account with that email exists, a reset link has been sent.'')])"
    unfolding r1 by (rule conjunct2)
  show ?thesis
    by (intro conjI) (fact sample_emails f s1 s2 r1 r2)+
qed

subsection \<open>Splitting and stripping\<close>

lemma split_not_Nil [simp]: "split sep s \<noteq> []"
  by (induction s) (auto split: list.splits)

lemma split_Cons_other:
  "c \<noteq> sep \<Longrightarrow> split sep (c # cs) = (c # hd (split sep cs)) # tl (split sep cs)"
  by (cases "split sep cs") simp_all

lemma join_Cons_Cons: "ys \<noteq> [] \<Longrightarrow> join sep (x # ys) = x @ sep @ join sep ys"
  by (cases ys) simp_all

lemma join_hd_Cons:
  "ws \<noteq> [] \<Longrightarrow> join sep ((c # hd ws) # tl ws) = c # join sep ws"
  by (cases ws; cases "tl ws") auto

text \<open>Splitting cuts at the separators only: joining the segments gives the text back.\<close>

lemma join_split: "join [sep] (split sep s) = s"
proof (induction s)
  case Nil
  show ?case by simp
next
  case (Cons c cs)
  show ?case
  proof (cases "c = sep")
    case True
    then show ?thesis using Cons by (simp add: join_Cons_Cons)
  next
    case False
    then show ?thesis using Cons by (simp add: split_Cons_other join_hd_Cons del: split.simps)
  qed
qed

lemma split_no_sep: "x \<in> set (split sep s) \<Longrightarrow> sep \<notin> set x"
proof (induction s arbitrary: x)
  case Nil
  then show ?case by simp
next
  case (Cons c cs)
  show ?case
  proof (cases "c = sep")
    case True
    with Cons show ?thesis by auto
  next
    case False
    have "hd (split sep cs) \<in> set (split sep cs)" by simp
    moreover have "set (tl (split sep cs)) \<subseteq> set (split sep cs)"
      by (simp add: list.set_sel(2) subsetI)
    ultimately show ?thesis
      using Cons False by (auto simp: split_Cons_other simp del: split.simps)
  qed
qed


lemma strip_ends:
  "strip s \<noteq> [] \<Longrightarrow> \<not> isspace (hd (strip s)) \<and> \<not> isspace (last (strip s))"
proof -
  assume a: "strip s \<noteq> []"
  let ?d = "dropWhile isspace s"
  let ?r = "dropWhile isspace (rev ?d)"
  from a have r: "?r \<noteq> []" by (simp add: strip_def)
  then have l: "\<not> isspace (hd ?r)" by (rule hd_dropWhile)
  have d: "?d \<noteq> []"
  proof
    assume "?d = []"
    then have "?r = []" by (simp only: rev.simps dropWhile.simps)
    with r show False by (simp only:)
  qed
  then have h: "\<not> isspace (hd ?d)" by (rule hd_dropWhile)
  have "last (strip s) = hd ?r" using r by (simp add: strip_def last_rev)
  moreover have "hd (strip s) = hd ?d"
  proof -
    obtain ws where ws: "rev ?d = ws @ ?r" by (metis takeWhile_dropWhile_id)
    then have "?d = rev ?r @ rev ws" by (metis rev_append rev_rev_ident)
    then have "hd ?d = hd (rev ?r @ rev ws)" by (rule arg_cong)
    also have "\<dots> = hd (rev ?r)" using r by (auto simp: hd_append)
    finally show ?thesis by (simp add: strip_def)
  qed
  ultimately show ?thesis using l h by simp
qed

lemma strip_decomp:
  "\<exists>l r. s = l @ strip s @ r \<and> (\<forall>c\<in>set l. isspace c) \<and> (\<forall>c\<in>set r. isspace c)"
proof -
  let ?d = "dropWhile isspace s"
  have 1: "s = takeWhile isspace s @ ?d" by simp
  have "rev ?d = takeWhile isspace (rev ?d) @ dropWhile isspace (rev ?d)" by simp
  then have 2: "?d = strip s @ rev (takeWhile isspace (rev ?d))"
    unfolding strip_def by (metis rev_append rev_rev_ident)
  have "\<forall>c\<in>set (takeWhile isspace s). isspace c" by (auto dest: set_takeWhileD)
  moreover have "\<forall>c\<in>set (rev (takeWhile isspace (rev ?d))). isspace c"
    by (auto dest: set_takeWhileD)
  ultimately show ?thesis using 1 2 by metis
qed







lemma comma_not_space [simp]: "\<not> isspace CHR '',''"
  by (simp add: isspace_def)

subsection \<open>Comma-separated filters\<close>












end
